theory Spec2Isabelle
  imports Main
begin

section \<open>Strings\<close>

text \<open>
  A JavaScript string is modelled as a HOL \<open>string\<close>, one \<open>char\<close> per code unit.
  HOL characters have eight bits, so the white space that \<open>String.prototype.trim\<close>
  removes is, within that range, TAB, LF, VT, FF, CR, SPACE and NO-BREAK SPACE; the
  white-space code units above \<open>0xFF\<close> lie outside the type.
\<close>

definition isWhitespace :: "char \<Rightarrow> bool" where
  "isWhitespace c =
     (c \<in> set [CHR 0x09, CHR 0x0A, CHR 0x0B, CHR 0x0C, CHR 0x0D, CHR 0x20, CHR 0xA0])"

definition trim :: "string \<Rightarrow> string" where
  "trim s = rev (dropWhile isWhitespace (rev (dropWhile isWhitespace s)))"

text \<open>\<open>a || b\<close> on strings: the empty string is the only falsy string.\<close>

definition orElse :: "string \<Rightarrow> string \<Rightarrow> string" where
  "orElse a b = (if a = [] then b else a)"


section \<open>Data model (types.ts)\<close>

text \<open>
  \<open>sectionInputs\<close> and \<open>expandedInputs\<close> are objects with one entry per
  \<open>InputCategory\<close>.
\<close>

record 'a Categories =
  facts :: 'a
  concepts :: 'a
  opinions :: 'a
  examples :: 'a
  other :: 'a

record AiPrompt =
  wordCount :: int
  tone :: string
  prompt :: string

text \<open>
  \<open>DocumentRow\<close>. The optional fields \<open>isLoading?\<close> and \<open>error?\<close> are options,
  \<open>None\<close> standing for \<open>undefined\<close>. The fields \<open>id\<close>, \<open>title\<close> and \<open>output\<close> are
  \<open>row_id\<close>, \<open>row_title\<close> and \<open>row_output\<close> here.
\<close>

record DocumentRow =
  row_id :: string
  row_title :: string
  input :: string
  aiPrompt :: AiPrompt
  row_output :: string
  isExpanded :: bool
  isLoading :: "bool option"
  error :: "string option"
  sectionInputs :: "string list Categories"
  expandedInputs :: "bool Categories"

text \<open>\<open>SavedDocument\<close>, with \<open>id\<close>, \<open>title\<close> and \<open>rows\<close> as \<open>doc_id\<close>,
  \<open>doc_title\<close> and \<open>doc_rows\<close>.\<close>

record SavedDocument =
  doc_id :: string
  doc_title :: string
  createdAt :: string
  updatedAt :: string
  doc_rows :: "DocumentRow list"

text \<open>
  \<open>createInitialRow(id, input, title)\<close>. The default of \<open>id\<close> is
  \<open>Date.now().toString()\<close>: the caller passes the clock reading. The defaults of
  \<open>input\<close> and \<open>title\<close> are the empty string.
\<close>

definition createInitialRow :: "string \<Rightarrow> string \<Rightarrow> string \<Rightarrow> DocumentRow" where
  "createInitialRow i inp ttl =
     \<lparr> row_id = i,
       row_title = orElse ttl (''Section '' @ take 4 i),
       input = inp,
       aiPrompt = \<lparr> wordCount = 100, tone = ''professional'', prompt = [] \<rparr>,
       row_output = [],
       isExpanded = True,
       isLoading = Some False,
       error = None,
       sectionInputs = \<lparr> facts = [[]], concepts = [[]], opinions = [[]],
                         examples = [[]], other = [[]] \<rparr>,
       expandedInputs = \<lparr> facts = False, concepts = False, opinions = False,
                          examples = False, other = False \<rparr> \<rparr>"

section \<open>Section handlers of App.tsx\<close>

text \<open>
  Every handler replaces the whole list (\<open>setRows\<close>); the model takes the list and
  returns the new one.
\<close>

definition handleAddRow :: "string \<Rightarrow> DocumentRow list \<Rightarrow> DocumentRow list" where
  "handleAddRow now prevRows = prevRows @ [createInitialRow now [] []]"

definition handleDeleteRow :: "string \<Rightarrow> DocumentRow list \<Rightarrow> DocumentRow list" where
  "handleDeleteRow i prevRows =
     (if length prevRows > 1 then filter (\<lambda>row. row_id row \<noteq> i) prevRows else prevRows)"

definition handleUpdateTitle :: "string \<Rightarrow> string \<Rightarrow> DocumentRow list \<Rightarrow> DocumentRow list" where
  "handleUpdateTitle i ttl prevRows =
     map (\<lambda>row. if row_id row = i then row\<lparr>row_title := ttl\<rparr> else row) prevRows"

definition handleUpdateInput :: "string \<Rightarrow> string \<Rightarrow> DocumentRow list \<Rightarrow> DocumentRow list" where
  "handleUpdateInput i inp prevRows =
     map (\<lambda>row. if row_id row = i then row\<lparr>input := inp\<rparr> else row) prevRows"

definition handleUpdateOutput :: "string \<Rightarrow> string \<Rightarrow> DocumentRow list \<Rightarrow> DocumentRow list" where
  "handleUpdateOutput i out prevRows =
     map (\<lambda>row. if row_id row = i then row\<lparr>row_output := out\<rparr> else row) prevRows"

definition handleUpdateAllRows :: "DocumentRow list \<Rightarrow> DocumentRow list \<Rightarrow> DocumentRow list" where
  "handleUpdateAllRows updatedRows prevRows = updatedRows"

text \<open>
  \<open>handleUpdatePrompt(id, field, value)\<close>: the field of \<open>aiPrompt\<close> and its new value.
\<close>

datatype promptUpdate = WordCount int | Tone string | PromptText string

fun withPrompt :: "promptUpdate \<Rightarrow> AiPrompt \<Rightarrow> AiPrompt" where
  "withPrompt (WordCount n) p = p\<lparr>wordCount := n\<rparr>"
| "withPrompt (Tone t) p = p\<lparr>tone := t\<rparr>"
| "withPrompt (PromptText t) p = p\<lparr>prompt := t\<rparr>"

definition handleUpdatePrompt :: "string \<Rightarrow> promptUpdate \<Rightarrow> DocumentRow list \<Rightarrow> DocumentRow list" where
  "handleUpdatePrompt i u prevRows =
     map (\<lambda>row. if row_id row = i then row\<lparr>aiPrompt := withPrompt u (aiPrompt row)\<rparr> else row) prevRows"

definition handleToggleExpand :: "string \<Rightarrow> DocumentRow list \<Rightarrow> DocumentRow list" where
  "handleToggleExpand i prevRows =
     map (\<lambda>row. if row_id row = i then row\<lparr>isExpanded := \<not> isExpanded row\<rparr> else row) prevRows"

text \<open>\<open>InputCategory\<close>, and the entry of a category: \<open>obj[category]\<close>.\<close>

datatype InputCategory = Facts | Concepts | Opinions | Examples | Other

fun entry :: "InputCategory \<Rightarrow> 'a Categories \<Rightarrow> 'a" where
  "entry Facts c = facts c"
| "entry Concepts c = concepts c"
| "entry Opinions c = opinions c"
| "entry Examples c = examples c"
| "entry Other c = other c"

text \<open>\<open>{ ...obj, [category]: v }\<close>\<close>

fun withEntry :: "InputCategory \<Rightarrow> 'a \<Rightarrow> 'a Categories \<Rightarrow> 'a Categories" where
  "withEntry Facts v c = c\<lparr>facts := v\<rparr>"
| "withEntry Concepts v c = c\<lparr>concepts := v\<rparr>"
| "withEntry Opinions v c = c\<lparr>opinions := v\<rparr>"
| "withEntry Examples v c = c\<lparr>examples := v\<rparr>"
| "withEntry Other v c = c\<lparr>other := v\<rparr>"

definition handleToggleInputExpand ::
  "string \<Rightarrow> InputCategory \<Rightarrow> DocumentRow list \<Rightarrow> DocumentRow list" where
  "handleToggleInputExpand i category prevRows =
     map (\<lambda>row. if row_id row = i
               then row\<lparr>expandedInputs :=
                          withEntry category (\<not> entry category (expandedInputs row))
                            (expandedInputs row)\<rparr>
               else row) prevRows"

definition handleUpdateSectionInput ::
  "string \<Rightarrow> InputCategory \<Rightarrow> nat \<Rightarrow> string \<Rightarrow> DocumentRow list \<Rightarrow> DocumentRow list" where
  "handleUpdateSectionInput i category index v prevRows =
     map (\<lambda>row. if row_id row = i
               then row\<lparr>sectionInputs :=
                          withEntry category
                            (map (\<lambda>(k, inp). if k = index then v else inp)
                               (enumerate 0 (entry category (sectionInputs row))))
                            (sectionInputs row)\<rparr>
               else row) prevRows"

definition handleAddSectionInput ::
  "string \<Rightarrow> InputCategory \<Rightarrow> DocumentRow list \<Rightarrow> DocumentRow list" where
  "handleAddSectionInput i category prevRows =
     map (\<lambda>row. if row_id row = i
               then row\<lparr>sectionInputs :=
                          withEntry category (entry category (sectionInputs row) @ [[]])
                            (sectionInputs row)\<rparr>
               else row) prevRows"

definition handleRemoveSectionInput ::
  "string \<Rightarrow> InputCategory \<Rightarrow> nat \<Rightarrow> DocumentRow list \<Rightarrow> DocumentRow list" where
  "handleRemoveSectionInput i category index prevRows =
     map (\<lambda>row. if row_id row = i
               then row\<lparr>sectionInputs :=
                          withEntry category
                            (map snd (filter (\<lambda>(k, inp). k \<noteq> index)
                               (enumerate 0 (entry category (sectionInputs row)))))
                            (sectionInputs row)\<rparr>
               else row) prevRows"

text \<open>
  \<open>handleImportDocument\<close>. \<open>prevRows[prevRows.length - 1]\<close> is \<open>undefined\<close> on the
  empty list, which takes the \<open>else\<close> branch. \<open>rows.map((row, index) => ...)\<close> is a
  map over the list paired with its indices.
\<close>

definition handleImportDocument :: "string \<Rightarrow> string \<Rightarrow> DocumentRow list \<Rightarrow> DocumentRow list" where
  "handleImportDocument now text prevRows =
     (let currentRow = (if prevRows = [] then None else Some (prevRows ! (length prevRows - 1)))
      in case currentRow of
           Some cur \<Rightarrow>
             if trim (input cur) = []
             then map (\<lambda>(index, row). if index = length prevRows - 1 then row\<lparr>input := text\<rparr> else row)
                      (enumerate 0 prevRows)
             else prevRows @ [createInitialRow now text []]
         | None \<Rightarrow> prevRows @ [createInitialRow now text []])"

section \<open>Continuous view (FullDocumentModal)\<close>


text \<open>
  A DOM node, as far as the scan reads it: \<open>nodeName\<close>, \<open>textContent\<close> (a string for
  every child of an element) and \<open>outerHTML\<close>, which only elements have (\<open>None\<close> is
  \<open>undefined\<close>, as on a text or comment node).
\<close>

record node =
  nodeName :: string
  textContent :: string
  outerHTML :: "string option"

text \<open>\<open>(node as Element).outerHTML || node.textContent || ''\<close>\<close>

definition nodeMarkup :: "node \<Rightarrow> string" where
  "nodeMarkup n =
     (case outerHTML n of
        Some h \<Rightarrow> orElse h (orElse (textContent n) [])
      | None \<Rightarrow> orElse (textContent n) [])"

text \<open>An entry of \<open>newSectionsData\<close>: \<open>{ title, outputHTML }\<close>.\<close>

record SectionData =
  sec_title :: string
  outputHTML :: string

text \<open>
  The state of the \<open>forEach\<close> loop. \<open>currentSection\<close> is a reference to an object
  that is also an element of \<open>newSectionsData\<close>: the model keeps the index of that
  element, and \<open>None\<close> for \<open>null\<close>.
\<close>

record scanState =
  newSectionsData :: "SectionData list"
  currentSection :: "nat option"

text \<open>\<open>currentSection.outputHTML += s\<close>, through the reference.\<close>

definition appendOutput :: "nat \<Rightarrow> string \<Rightarrow> SectionData list \<Rightarrow> SectionData list" where
  "appendOutput i s secs = secs[i := (secs ! i)\<lparr>outputHTML := outputHTML (secs ! i) @ s\<rparr>]"

definition scanNode :: "scanState \<Rightarrow> node \<Rightarrow> scanState" where
  "scanNode st n =
     (if nodeName n = ''H2'' then
        \<lparr> newSectionsData = newSectionsData st
             @ [\<lparr> sec_title = trim (orElse (textContent n) ''Untitled Section''),
                  outputHTML = [] \<rparr>],
          currentSection = Some (length (newSectionsData st)) \<rparr>
      else if currentSection st \<noteq> None \<and> nodeName n \<noteq> ''HR'' then
        st\<lparr>newSectionsData :=
             appendOutput (the (currentSection st)) (nodeMarkup n) (newSectionsData st)\<rparr>
      else if currentSection st = None \<and> nodeName n \<noteq> ''HR'' \<and> trim (textContent n) \<noteq> [] then
        (let st1 = (if length (newSectionsData st) = 0
                    then \<lparr> newSectionsData = newSectionsData st
                              @ [\<lparr> sec_title = ''Untitled Section'', outputHTML = [] \<rparr>],
                           currentSection = Some (length (newSectionsData st)) \<rparr>
                    else st)
         in case currentSection st1 of
              Some i \<Rightarrow> st1\<lparr>newSectionsData := appendOutput i (nodeMarkup n) (newSectionsData st1)\<rparr>
            | None \<Rightarrow> st1)
      else st)"

definition scanNodes :: "node list \<Rightarrow> scanState" where
  "scanNodes parsedNodes =
     foldl scanNode \<lparr> newSectionsData = [], currentSection = None \<rparr> parsedNodes"

text \<open>The second \<open>forEach\<close>: every \<open>outputHTML\<close> is trimmed.\<close>

definition trimSections :: "SectionData list \<Rightarrow> SectionData list" where
  "trimSections secs = map (\<lambda>section. section\<lparr>outputHTML := trim (outputHTML section)\<rparr>) secs"

definition parsedSections :: "node list \<Rightarrow> SectionData list" where
  "parsedSections parsedNodes = trimSections (newSectionsData (scanNodes parsedNodes))"

text \<open>
  The errors that \<open>handleSyncContinuousChanges\<close> throws and catches itself:
  \<open>Could not parse content.\<close> and the message that interpolates the number of parsed
  sections and \<open>rows.length\<close>.
\<close>

datatype syncError = CouldNotParse | StructuralMismatch nat nat

text \<open>
  \<open>rows.map((originalRow, index) => ...)\<close> of the update step; \<open>newSectionsData[index]\<close>
  is \<open>undefined\<close> beyond the end.
\<close>

definition updateRows :: "SectionData list \<Rightarrow> DocumentRow list \<Rightarrow> DocumentRow list" where
  "updateRows secs rs =
     map (\<lambda>(index, originalRow).
            if index < length secs then
              (let newData = secs ! index
               in if row_title originalRow \<noteq> sec_title newData
                     \<or> row_output originalRow \<noteq> outputHTML newData
                  then originalRow\<lparr>row_title := sec_title newData, row_output := outputHTML newData\<rparr>
                  else originalRow)
            else originalRow)
         (enumerate 0 rs)"

text \<open>
  The body of the \<open>try\<close> block. \<open>DOMParser\<close> belongs to the browser, so it is a
  parameter: \<open>parseFromString\<close> maps the wrapped markup to the child nodes of the wrapper
  \<open>div\<close>, \<open>None\<close> when there is no such node list. \<open>Inl\<close> is the thrown error,
  \<open>Inr\<close> the list handed to \<open>onUpdateAllRows\<close>.
\<close>

definition syncContinuousChanges ::
  "(string \<Rightarrow> node list option) \<Rightarrow> string \<Rightarrow> DocumentRow list \<Rightarrow> syncError + DocumentRow list" where
  "syncContinuousChanges parseFromString continuousContent rs =
     (case parseFromString (''<div>'' @ continuousContent @ ''</div>'') of
        None \<Rightarrow> Inl CouldNotParse
      | Some parsedNodes \<Rightarrow>
          (let secs = parsedSections parsedNodes
           in if length secs \<noteq> length rs
              then Inl (StructuralMismatch (length secs) (length rs))
              else Inr (updateRows secs rs)))"

datatype syncStatus = Idle | Success | Failure syncError

text \<open>
  The whole handler: the rows of the application after it (\<open>onUpdateAllRows\<close> is
  \<open>handleUpdateAllRows\<close>) and the sync status it leaves.
\<close>

definition handleSyncContinuousChanges ::
  "(string \<Rightarrow> node list option) \<Rightarrow> string \<Rightarrow> DocumentRow list \<Rightarrow> DocumentRow list \<times> syncStatus" where
  "handleSyncContinuousChanges parseFromString continuousContent rs =
     (case syncContinuousChanges parseFromString continuousContent rs of
        Inl e \<Rightarrow> (rs, Failure e)
      | Inr updatedRows \<Rightarrow> (handleUpdateAllRows updatedRows rs, Success))"

section \<open>Application state and persistence (App.tsx, useLocalStorage.ts)\<close>

datatype OperatingMode = Loading | Supabase | Local | Error

text \<open>The state hooks of \<open>App\<close> that the handlers read and write.\<close>

record AppState =
  rows :: "DocumentRow list"
  savedDocuments :: "SavedDocument list"
  currentDocumentId :: "string option"
  operatingMode :: OperatingMode
  appError :: "string option"

text \<open>
  A value caught by a \<open>catch\<close> block: an instance of \<open>Error\<close> with its message, or
  something else, with what \<open>String(error)\<close> gives.
\<close>

datatype thrown = ErrorInstance string | NotAnError string

text \<open>The record \<open>{ data, error }\<close> that a request to the remote store resolves to.\<close>

datatype 'a response = Response "'a option" "thrown option"

record SupabaseDocument =
  sb_id :: string
  user_id :: string
  sb_title :: string
  sb_rows :: "DocumentRow list"
  created_at :: string
  updated_at :: string

definition mapSupabaseToSavedDocument :: "SupabaseDocument \<Rightarrow> SavedDocument" where
  "mapSupabaseToSavedDocument doc =
     \<lparr> doc_id = sb_id doc, doc_title = sb_title doc, createdAt = created_at doc,
       updatedAt = updated_at doc, doc_rows = sb_rows doc \<rparr>"

text \<open>
  \<open>loadFromSupabase\<close>. The arguments are the clock reading for the fresh row and what
  \<open>auth.getUser()\<close> and the \<open>select\<close> resolve to. \<open>data.map\<close> on a missing
  \<open>data\<close> throws a \<open>TypeError\<close>, an instance of \<open>Error\<close> whose message is
  the engine's.
\<close>

definition loadFromSupabase ::
  "string \<Rightarrow> string response \<Rightarrow> SupabaseDocument list response \<Rightarrow> AppState \<Rightarrow> AppState" where
  "loadFromSupabase now user selected s =
     (let s0 = s\<lparr>operatingMode := Loading\<rparr>;
          attempt =
            (case user of
               Response _ (Some userError) \<Rightarrow> Inl userError
             | Response None None \<Rightarrow> Inl (ErrorInstance ''User not authenticated.'')
             | Response (Some _) None \<Rightarrow>
                 (case selected of
                    Response _ (Some e) \<Rightarrow> Inl e
                  | Response None None \<Rightarrow> Inl (ErrorInstance ''Cannot read properties of null'')
                  | Response (Some d) None \<Rightarrow> Inr d))
      in case attempt of
           Inr d \<Rightarrow>
             s0\<lparr>savedDocuments := map mapSupabaseToSavedDocument d,
                rows := [createInitialRow now [] []],
                currentDocumentId := None,
                operatingMode := Supabase,
                appError := None\<rparr>
         | Inl e \<Rightarrow>
             s0\<lparr>appError := Some (''Failed to load data from Supabase: ''
                                  @ (case e of ErrorInstance m \<Rightarrow> m | NotAnError str \<Rightarrow> str)),
                operatingMode := Error\<rparr>)"

text \<open>
  Local storage. A value of JavaScript that may be \<open>null\<close> is an option, \<open>None\<close> for
  \<open>null\<close>. Reading a key gives nothing (\<open>null\<close> or the empty string), a string that
  \<open>JSON.parse\<close> rejects, or a string that it parses: to \<open>null\<close>, or to a value of the
  shape that the reader expects (JSON of any other shape is not modelled). The storage as a
  whole may refuse to be read or written; both throw inside the helpers.
\<close>

datatype 'a item = Missing | Unparsable | Parsed "'a option"

record LocalStorage =
  readFails :: bool
  writeFails :: bool
  document_rows :: "DocumentRow list item"
  saved_documents :: "SavedDocument list item"
  current_document_id :: "string item"

text \<open>
  \<open>getItem(key, initialValue)\<close>: the key is the field selector. Every failure is caught
  in the helper, which logs it and returns \<open>initialValue\<close>.
\<close>

definition getItem :: "LocalStorage \<Rightarrow> (LocalStorage \<Rightarrow> 'a item) \<Rightarrow> 'a option \<Rightarrow> 'a option" where
  "getItem store key initialValue =
     (if readFails store then initialValue
      else case key store of Parsed v \<Rightarrow> v | Missing \<Rightarrow> initialValue | Unparsable \<Rightarrow> initialValue)"

text \<open>
  \<open>setItem(key, value)\<close>: the write is the field update. A failure is caught in the
  helper, which logs it; the storage keeps what it had.
\<close>

definition setItem :: "LocalStorage \<Rightarrow> (LocalStorage \<Rightarrow> LocalStorage) \<Rightarrow> LocalStorage" where
  "setItem store write = (if writeFails store then store else write store)"

text \<open>\<open>if (localCurrentId)\<close>: \<open>null\<close> and the empty string are falsy.\<close>

definition truthyId :: "string option \<Rightarrow> bool" where
  "truthyId i = (case i of None \<Rightarrow> False | Some v \<Rightarrow> v \<noteq> [])"

text \<open>
  What the state hooks hold when the load from the local storage is over: the two hooks
  for lists hold what \<open>JSON.parse\<close> gave, which may be \<open>null\<close>.
\<close>

record LoadedState =
  loaded_rows :: "DocumentRow list option"
  loaded_savedDocuments :: "SavedDocument list option"
  loaded_currentDocumentId :: "string option"
  loaded_operatingMode :: OperatingMode
  loaded_appError :: "string option"

definition loadedOf :: "AppState \<Rightarrow> LoadedState" where
  "loadedOf s =
     \<lparr> loaded_rows = Some (rows s), loaded_savedDocuments = Some (savedDocuments s),
       loaded_currentDocumentId = currentDocumentId s,
       loaded_operatingMode = operatingMode s, loaded_appError = appError s \<rparr>"

definition appStateOf :: "LoadedState \<Rightarrow> AppState option" where
  "appStateOf l =
     (case (loaded_rows l, loaded_savedDocuments l) of
        (Some rs, Some docs) \<Rightarrow>
          Some \<lparr> rows = rs, savedDocuments = docs,
                 currentDocumentId = loaded_currentDocumentId l,
                 operatingMode = loaded_operatingMode l, appError = loaded_appError l \<rparr>
      | _ \<Rightarrow> None)"

text \<open>
  \<open>loadFromLocalStorage\<close>. Its arguments are the two clock readings of its calls of
  \<open>createInitialRow()\<close> (the one in the default of the first \<open>getItem\<close> and the one of
  the reset), the message that the engine gives to the \<open>TypeError\<close> of reading a property
  of \<open>null\<close>, as a function of the property, and the storage. Every hook that the
  function leaves is set by it, so the state before is no argument. The three setters
  after the reads run before anything can throw. \<open>localSavedDocs.find\<close> and
  \<open>localRows.length\<close> throw on \<open>null\<close>: then the \<open>catch\<close> block records the cause
  and sets the mode \<open>error\<close>, and the hooks keep what the setters gave them.
\<close>

definition loadFromLocalStorage ::
  "string \<Rightarrow> string \<Rightarrow> (string \<Rightarrow> string) \<Rightarrow> LocalStorage \<Rightarrow> LoadedState \<times> LocalStorage" where
  "loadFromLocalStorage now0 now1 typeError store =
     (let localRows = getItem store document_rows (Some [createInitialRow now0 [] []]);
          localSavedDocs = getItem store saved_documents (Some []);
          localCurrentId = getItem store current_document_id None;
          loaded = \<lparr> loaded_rows = localRows, loaded_savedDocuments = localSavedDocs,
                     loaded_currentDocumentId = localCurrentId,
                     loaded_operatingMode = Local, loaded_appError = None \<rparr>;
          caught = (\<lambda>property.
                     loaded\<lparr>loaded_appError :=
                              Some (''Failed to load data from LocalStorage: '' @ typeError property),
                            loaded_operatingMode := Error\<rparr>)
      in if truthyId localCurrentId then
           (case localSavedDocs of
              None \<Rightarrow> (caught ''find'', store)
            | Some docs \<Rightarrow>
                (case find (\<lambda>doc. Some (doc_id doc) = localCurrentId) docs of
                   Some currentDoc \<Rightarrow> (loaded\<lparr>loaded_rows := Some (doc_rows currentDoc)\<rparr>, store)
                 | None \<Rightarrow>
                     (loaded\<lparr>loaded_currentDocumentId := None,
                             loaded_rows := Some [createInitialRow now1 [] []]\<rparr>,
                      setItem store (\<lambda>st. st\<lparr>current_document_id := Parsed None\<rparr>))))
         else
           (case localRows of
              None \<Rightarrow> (caught ''length'', store)
            | Some rs \<Rightarrow>
                if length rs = 0
                   \<or> (length rs = 1 \<and> input (rs ! 0) = [] \<and> row_output (rs ! 0) = [])
                then (loaded\<lparr>loaded_rows := Some [createInitialRow now1 [] []]\<rparr>, store)
                else (loaded, store)))"

text \<open>
  The mode-deciding effect. Its inputs are what the \<open>useSupabase\<close> hook reports:
  whether it is still loading, whether a client exists and is initialised, and the message
  of its error if it has one. The error that the fallback branch records first is
  overwritten by \<open>loadFromLocalStorage\<close> on both of its paths.
\<close>

record SupabaseHook =
  supabaseLoading :: bool
  supabaseClient :: bool
  supabaseInitialized :: bool
  supabaseError :: "string option"

definition initialize ::
  "SupabaseHook \<Rightarrow> string \<Rightarrow> string \<Rightarrow> (string \<Rightarrow> string) \<Rightarrow> string response
     \<Rightarrow> SupabaseDocument list response \<Rightarrow> LocalStorage \<Rightarrow> AppState \<Rightarrow> LoadedState \<times> LocalStorage" where
  "initialize hook now0 now1 typeError user selected store s =
     (if supabaseLoading hook then (loadedOf (s\<lparr>operatingMode := Loading\<rparr>), store)
      else if supabaseClient hook \<and> supabaseInitialized hook
      then (loadedOf (loadFromSupabase now0 user selected s), store)
      else loadFromLocalStorage now0 now1 typeError store)"



section \<open>Document handlers (App.tsx)\<close>

text \<open>\<open>findIndex\<close>: the first index whose element satisfies the predicate, or \<open>-1\<close>.\<close>

fun findIndexFrom :: "int \<Rightarrow> ('a \<Rightarrow> bool) \<Rightarrow> 'a list \<Rightarrow> int" where
  "findIndexFrom i P [] = -1"
| "findIndexFrom i P (x # xs) = (if P x then i else findIndexFrom (i + 1) P xs)"

definition findIndex :: "('a \<Rightarrow> bool) \<Rightarrow> 'a list \<Rightarrow> int" where
  "findIndex P xs = findIndexFrom 0 P xs"

text \<open>
  What a call of \<open>handleSaveDocument\<close> meets outside the state: whether the client
  exists, what \<open>auth.getUser()\<close> and the update or insert resolve to, the inputs of the
  reload, the two clock readings \<open>new Date().toISOString()\<close> and
  \<open>Date.now().toString()\<close>, and \<open>new Date(x).getTime()\<close>. The last field says
  when React runs the updater that the handler passes to \<open>setSavedDocuments\<close>: at the
  call, or not before the next render, after the handler has returned.
\<close>

record SaveEnv =
  sv_client :: bool
  sv_user :: "string response"
  sv_written :: "SupabaseDocument response"
  sv_reloadNow :: string
  sv_reloadUser :: "string response"
  sv_reloadSelected :: "SupabaseDocument list response"
  sv_iso :: string
  sv_ms :: string
  sv_getTime :: "string \<Rightarrow> int"
  sv_updaterAtCall :: bool

text \<open>
  \<open>updatedDocs.sort((a, b) => getTime(b.updatedAt) - getTime(a.updatedAt))\<close>: a stable
  sort by descending time.
\<close>

definition sortByUpdatedAt :: "(string \<Rightarrow> int) \<Rightarrow> SavedDocument list \<Rightarrow> SavedDocument list" where
  "sortByUpdatedAt getTime docs = sort_key (\<lambda>doc. - getTime (updatedAt doc)) docs"

text \<open>
  \<open>handleSaveDocument\<close>. In the local branch the variable \<open>newDocId\<close> starts as
  \<open>currentDocumentId\<close> and is assigned only inside the updater given to
  \<open>setSavedDocuments\<close>. The new index is what the updater returns in either case; but
  when the updater has not run at the call, \<open>newDocId\<close> still holds
  \<open>currentDocumentId\<close> where the handler compares the two.
\<close>

definition handleSaveDocument :: "SaveEnv \<Rightarrow> string \<Rightarrow> AppState \<Rightarrow> AppState" where
  "handleSaveDocument env ttl s =
     (let trimmedTitle = trim ttl
      in if trimmedTitle = [] then s
         else if operatingMode s = Supabase \<and> sv_client env then
           (let s0 = s\<lparr>operatingMode := Loading\<rparr>;
                attempt =
                  (case sv_user env of
                     Response _ (Some userError) \<Rightarrow> Inl userError
                   | Response None None \<Rightarrow> Inl (ErrorInstance ''User not authenticated.'')
                   | Response (Some _) None \<Rightarrow>
                       if truthyId (currentDocumentId s) then
                         (case sv_written env of
                            Response _ (Some e) \<Rightarrow> Inl e
                          | Response _ None \<Rightarrow> Inr s0)
                       else
                         (case sv_written env of
                            Response _ (Some e) \<Rightarrow> Inl e
                          | Response None None \<Rightarrow>
                              Inl (ErrorInstance ''Cannot read properties of null'')
                          | Response (Some savedDocData) None \<Rightarrow>
                              Inr (s0\<lparr>currentDocumentId := Some (sb_id savedDocData)\<rparr>)))
            in case attempt of
                 Inr s1 \<Rightarrow>
                   loadFromSupabase (sv_reloadNow env) (sv_reloadUser env) (sv_reloadSelected env) s1
               | Inl e \<Rightarrow>
                   s0\<lparr>appError := Some (case e of ErrorInstance m \<Rightarrow> m
                                        | NotAnError _ \<Rightarrow> ''Failed to save document to Supabase.''),
                      operatingMode := Error\<rparr>)
         else if operatingMode s = Local then
           (let now = sv_iso env;
                prevDocs = savedDocuments s;
                existingDocIndex =
                  (if truthyId (currentDocumentId s)
                   then findIndex (\<lambda>doc. Some (doc_id doc) = currentDocumentId s) prevDocs
                   else -1);
                (updatedDocs, idInUpdater) =
                  (if existingDocIndex > -1 then
                     (prevDocs[nat existingDocIndex :=
                        (prevDocs ! nat existingDocIndex)
                          \<lparr>doc_title := trimmedTitle, doc_rows := rows s, updatedAt := now\<rparr>],
                      currentDocumentId s)
                   else
                     (let newDoc = \<lparr> doc_id = sv_ms env, doc_title = trimmedTitle,
                                     createdAt = now, updatedAt = now, doc_rows = rows s \<rparr>
                      in (prevDocs @ [newDoc], Some (doc_id newDoc))));
                newDocId = (if sv_updaterAtCall env then idInUpdater else currentDocumentId s);
                s1 = s\<lparr>savedDocuments := sortByUpdatedAt (sv_getTime env) updatedDocs\<rparr>
            in if newDocId \<noteq> currentDocumentId s then s1\<lparr>currentDocumentId := newDocId\<rparr> else s1)
         else s\<lparr>appError := Some ''Cannot save document. Application is not in a valid state.''\<rparr>)"

definition handleOpenDocument :: "SavedDocument \<Rightarrow> AppState \<Rightarrow> AppState" where
  "handleOpenDocument document s =
     s\<lparr>rows := doc_rows document, currentDocumentId := Some (doc_id document)\<rparr>"

text \<open>What a call of \<open>handleDeleteDocument\<close> meets outside the state.\<close>

record DeleteEnv =
  del_client :: bool
  del_error :: "thrown option"
  del_now :: string
  del_reloadNow :: string
  del_reloadUser :: "string response"
  del_reloadSelected :: "SupabaseDocument list response"

definition handleDeleteDocument :: "DeleteEnv \<Rightarrow> string \<Rightarrow> AppState \<Rightarrow> AppState" where
  "handleDeleteDocument env i s =
     (if operatingMode s = Supabase \<and> del_client env then
        (let s0 = s\<lparr>operatingMode := Loading\<rparr>
         in case del_error env of
              Some e \<Rightarrow>
                s0\<lparr>appError := Some (case e of ErrorInstance m \<Rightarrow> m
                                     | NotAnError _ \<Rightarrow> ''Failed to delete document from Supabase.''),
                   operatingMode := Error\<rparr>
            | None \<Rightarrow>
                (let s1 = (if currentDocumentId s = Some i
                           then s0\<lparr>currentDocumentId := None,
                                   rows := [createInitialRow (del_now env) [] []]\<rparr>
                           else s0)
                 in loadFromSupabase (del_reloadNow env) (del_reloadUser env)
                      (del_reloadSelected env) s1))
      else if operatingMode s = Local then
        (let s1 = s\<lparr>savedDocuments := filter (\<lambda>doc. doc_id doc \<noteq> i) (savedDocuments s)\<rparr>
         in if currentDocumentId s = Some i
            then s1\<lparr>currentDocumentId := None, rows := [createInitialRow (del_now env) [] []]\<rparr>
            else s1)
      else s\<lparr>appError := Some ''Cannot delete document. Application is not in a valid state.''\<rparr>)"

definition handleNewDocument :: "string \<Rightarrow> AppState \<Rightarrow> AppState" where
  "handleNewDocument now s = s\<lparr>currentDocumentId := None, rows := [createInitialRow now [] []]\<rparr>"

text \<open>
  The operations of a session after its initialisation. Every section handler calls
  \<open>setRows\<close> only, with a function of the previous list: \<open>MutateRows f\<close>, for instance
  \<open>MutateRows (handleAddRow now)\<close> or \<open>MutateRows (handleDeleteRow i)\<close>.
\<close>

datatype operation =
    MutateRows "DocumentRow list \<Rightarrow> DocumentRow list"
  | SaveDocument SaveEnv string
  | OpenDocument SavedDocument
  | DeleteDocument DeleteEnv string
  | NewDocument string

fun perform :: "AppState \<Rightarrow> operation \<Rightarrow> AppState" where
  "perform s (MutateRows f) = s\<lparr>rows := f (rows s)\<rparr>"
| "perform s (SaveDocument env ttl) = handleSaveDocument env ttl s"
| "perform s (OpenDocument document) = handleOpenDocument document s"
| "perform s (DeleteDocument env i) = handleDeleteDocument env i s"
| "perform s (NewDocument now) = handleNewDocument now s"

definition run :: "AppState \<Rightarrow> operation list \<Rightarrow> AppState" where
  "run s ops = foldl perform s ops"

section \<open>Text generation (services/openai.ts, App.tsx)\<close>

text \<open>
  What the chat-completion request comes to: a response with its
  \<open>choices[0]?.message?.content\<close> (\<open>None\<close> when that is \<open>null\<close> or \<open>undefined\<close>),
  or a rejection with the value thrown.
\<close>

datatype completion = Completed "string option" | Rejected thrown

text \<open>
  \<open>generateText\<close>: \<open>Inl\<close> is the message of the error it throws, \<open>Inr\<close> the string it
  returns. \<open>clientReady\<close> says that \<open>openai\<close> and \<open>model\<close> are set. The prompt that
  the function builds from the row only goes into the request, whose outcome is given.
\<close>

definition generateText :: "bool \<Rightarrow> completion \<Rightarrow> string + string" where
  "generateText clientReady outcome =
     (if \<not> clientReady then Inl ''OpenAI client or model not initialized''
      else case outcome of
             Completed content \<Rightarrow>
               (case content of
                  None \<Rightarrow> Inr ''Error: No content received from API.''
                | Some c \<Rightarrow> if c = [] then Inr ''Error: No content received from API.'' else Inr c)
           | Rejected (ErrorInstance m) \<Rightarrow> Inr (''Error generating text: '' @ m)
           | Rejected (NotAnError _) \<Rightarrow> Inr ''An unknown error occurred while generating text.'')"

text \<open>
  \<open>handleGenerateText\<close>, from the click to the completion of the request: the rows
  after both \<open>setRows\<close>.
\<close>

definition handleGenerateText ::
  "bool \<Rightarrow> bool \<Rightarrow> completion \<Rightarrow> string \<Rightarrow> DocumentRow list \<Rightarrow> DocumentRow list" where
  "handleGenerateText isAiInitialized clientReady outcome i rs =
     (if \<not> isAiInitialized then
        map (\<lambda>r. if row_id r = i
                 then r\<lparr>error := Some ''OpenAI client not initialized.'', isLoading := Some False\<rparr>
                 else r) rs
      else case find (\<lambda>r. row_id r = i) rs of
             None \<Rightarrow> rs
           | Some row \<Rightarrow>
               (let rs1 = map (\<lambda>r. if row_id r = i
                                   then r\<lparr>isLoading := Some True, error := None\<rparr> else r) rs
                in case generateText clientReady outcome of
                     Inr generatedText \<Rightarrow>
                       map (\<lambda>r. if row_id r = i
                                then r\<lparr>row_output := generatedText, isLoading := Some False\<rparr>
                                else r) rs1
                   | Inl message \<Rightarrow>
                       map (\<lambda>r. if row_id r = i
                                then r\<lparr>error := Some message, isLoading := Some False\<rparr>
                                else r) rs1))"

section \<open>The handlers of a session\<close>

text \<open>
  Every handler that the components can call once the application is initialised, each
  with what it takes from outside: clock readings, the outcome of requests, the parser of
  the browser.
\<close>

datatype action =
    AddRow string
  | DeleteRow string
  | UpdateTitle string string
  | UpdateInput string string
  | UpdatePrompt string promptUpdate
  | UpdateOutput string string
  | ToggleExpand string
  | ToggleInputExpand string InputCategory
  | UpdateSectionInput string InputCategory nat string
  | AddSectionInput string InputCategory
  | RemoveSectionInput string InputCategory nat
  | GenerateText bool bool completion string
  | ImportDocument string string
  | SyncContinuousChanges "string \<Rightarrow> node list option" string
  | Save SaveEnv string
  | Open SavedDocument
  | DeleteSaved DeleteEnv string
  | New string

text \<open>The list of sections after a handler that only calls \<open>setRows\<close>.\<close>

fun rowsAfter :: "action \<Rightarrow> DocumentRow list \<Rightarrow> DocumentRow list" where
  "rowsAfter (AddRow now) rs = handleAddRow now rs"
| "rowsAfter (DeleteRow i) rs = handleDeleteRow i rs"
| "rowsAfter (UpdateTitle i ttl) rs = handleUpdateTitle i ttl rs"
| "rowsAfter (UpdateInput i inp) rs = handleUpdateInput i inp rs"
| "rowsAfter (UpdatePrompt i u) rs = handleUpdatePrompt i u rs"
| "rowsAfter (UpdateOutput i out) rs = handleUpdateOutput i out rs"
| "rowsAfter (ToggleExpand i) rs = handleToggleExpand i rs"
| "rowsAfter (ToggleInputExpand i category) rs = handleToggleInputExpand i category rs"
| "rowsAfter (UpdateSectionInput i category index v) rs =
     handleUpdateSectionInput i category index v rs"
| "rowsAfter (AddSectionInput i category) rs = handleAddSectionInput i category rs"
| "rowsAfter (RemoveSectionInput i category index) rs =
     handleRemoveSectionInput i category index rs"
| "rowsAfter (GenerateText isAiInitialized clientReady outcome i) rs =
     handleGenerateText isAiInitialized clientReady outcome i rs"
| "rowsAfter (ImportDocument now text) rs = handleImportDocument now text rs"
| "rowsAfter (SyncContinuousChanges parseFromString continuousContent) rs =
     fst (handleSyncContinuousChanges parseFromString continuousContent rs)"
| "rowsAfter _ rs = rs"

fun act :: "AppState \<Rightarrow> action \<Rightarrow> AppState" where
  "act s (Save env ttl) = handleSaveDocument env ttl s"
| "act s (Open document) = handleOpenDocument document s"
| "act s (DeleteSaved env i) = handleDeleteDocument env i s"
| "act s (New now) = handleNewDocument now s"
| "act s a = s\<lparr>rows := rowsAfter a (rows s)\<rparr>"

definition session :: "AppState \<Rightarrow> action list \<Rightarrow> AppState" where
  "session s as = foldl act s as"

section \<open>Notions used in the statements\<close>

text \<open>A list of sections that is not empty and whose identifiers are pairwise distinct.\<close>

definition goodRows :: "DocumentRow list \<Rightarrow> bool" where
  "goodRows rs = (rs \<noteq> [] \<and> distinct (map row_id rs))"

text \<open>A state whose sections are such a list, and so are those of every saved document.\<close>

definition wellFormed :: "AppState \<Rightarrow> bool" where
  "wellFormed s = (goodRows (rows s) \<and> list_all (\<lambda>doc. goodRows (doc_rows doc)) (savedDocuments s))"

text \<open>The documents that the remote store delivers, if it delivers any, are of that kind.\<close>

definition remoteDocsOk :: "SupabaseDocument list response \<Rightarrow> bool" where
  "remoteDocsOk r =
     (case r of
        Response (Some d) None \<Rightarrow> list_all (\<lambda>doc. goodRows (sb_rows doc)) d
      | _ \<Rightarrow> True)"

text \<open>
  What a session takes for granted of the world around it: a clock reading that becomes
  the identifier of a new section is the identifier of none in the list; a document is
  opened from the index; the documents that a reload fetches are of the kind above.
\<close>

fun admissible :: "AppState \<Rightarrow> action \<Rightarrow> bool" where
  "admissible s (AddRow now) = (now \<notin> set (map row_id (rows s)))"
| "admissible s (ImportDocument now text) =
     ((rows s \<noteq> [] \<and> trim (input (last (rows s))) = []) \<or> now \<notin> set (map row_id (rows s)))"
| "admissible s (Open document) = (document \<in> set (savedDocuments s))"
| "admissible s (Save env ttl) = remoteDocsOk (sv_reloadSelected env)"
| "admissible s (DeleteSaved env i) = remoteDocsOk (del_reloadSelected env)"
| "admissible s _ = True"

fun admissibleSession :: "AppState \<Rightarrow> action list \<Rightarrow> bool" where
  "admissibleSession s [] = True"
| "admissibleSession s (a # as) = (admissible s a \<and> admissibleSession (act s a) as)"

text \<open>What the local storage holds is of that kind, as far as it can be read.\<close>

definition storageOk :: "string \<Rightarrow> LocalStorage \<Rightarrow> bool" where
  "storageOk now0 store =
     ((case getItem store document_rows (Some [createInitialRow now0 [] []]) of
         None \<Rightarrow> False
       | Some rs \<Rightarrow> distinct (map row_id rs))
      \<and> (case getItem store saved_documents (Some []) of
            None \<Rightarrow> False
          | Some docs \<Rightarrow> list_all (\<lambda>doc. goodRows (doc_rows doc)) docs))"

text \<open>
  The reference \<open>currentSection\<close> is \<open>null\<close> while there is no section, and
  otherwise points at the last one.
\<close>

definition currentIsLast :: "scanState \<Rightarrow> bool" where
  "currentIsLast st =
     (case currentSection st of
        None \<Rightarrow> newSectionsData st = []
      | Some i \<Rightarrow> Suc i = length (newSectionsData st))"

text \<open>What a run of nodes adds to the open section: the markup of all but the rules.\<close>

definition bodyMarkup :: "node list \<Rightarrow> string" where
  "bodyMarkup body = concat (map nodeMarkup (filter (\<lambda>n. nodeName n \<noteq> ''HR'') body))"

text \<open>A node that the scan passes over while no section is open.\<close>

definition skipped :: "node \<Rightarrow> bool" where
  "skipped n = (nodeName n = ''HR'' \<or> trim (textContent n) = [])"

text \<open>The section that a heading and the nodes up to the next heading give, before trimming.\<close>

definition headingSection :: "node \<Rightarrow> node list \<Rightarrow> SectionData" where
  "headingSection h body =
     \<lparr> sec_title = trim (orElse (textContent h) ''Untitled Section''),
       outputHTML = bodyMarkup body \<rparr>"

text \<open>A string with no white space at either end.\<close>

definition trimmed :: "string \<Rightarrow> bool" where
  "trimmed s = (s = [] \<or> (\<not> isWhitespace (hd s) \<and> \<not> isWhitespace (last s)))"

text \<open>The row that \<open>createInitialRow\<close> gives, once it has an output.\<close>

definition exampleRow :: "string \<Rightarrow> string \<Rightarrow> string \<Rightarrow> DocumentRow" where
  "exampleRow i ttl out = (createInitialRow i [] ttl)\<lparr>row_output := out\<rparr>"

text \<open>An element node and a text node, by the three properties that the scan reads.\<close>

definition elementNode :: "string \<Rightarrow> string \<Rightarrow> string \<Rightarrow> node" where
  "elementNode name text html = \<lparr> nodeName = name, textContent = text, outerHTML = Some html \<rparr>"

definition textNode :: "string \<Rightarrow> node" where
  "textNode text = \<lparr> nodeName = ''#text'', textContent = text, outerHTML = None \<rparr>"

text \<open>
  The child nodes of the wrapper that a browser's \<open>DOMParser\<close> builds for the markup of
  the examples: the merge of one untitled row without output; the merge of the rows
  \<open>A\<close> and \<open>B\<close>; that document after an edit of the second section; after the
  second heading was deleted; and a document that begins with a paragraph. The function
  stands for the parser at these five strings only.
\<close>

definition exampleDom :: "string \<Rightarrow> node list option" where
  \<open>exampleDom markup =
     (if markup = ''<div><h2>Untitled Section</h2>\<newline></div>'' then
        Some [elementNode ''H2'' ''Untitled Section'' ''<h2>Untitled Section</h2>'',
              textNode ''\<newline>'']
      else if markup = ''<div><h2>A</h2>\<newline><p>x</p>\<newline><hr class="my-4 border-gray-700">\<newline><h2>B</h2>\<newline><p>y</p></div>'' then
        Some [elementNode ''H2'' ''A'' ''<h2>A</h2>'', textNode ''\<newline>'',
              elementNode ''P'' ''x'' ''<p>x</p>'', textNode ''\<newline>'',
              elementNode ''HR'' [] ''<hr class="my-4 border-gray-700">'', textNode ''\<newline>'',
              elementNode ''H2'' ''B'' ''<h2>B</h2>'', textNode ''\<newline>'',
              elementNode ''P'' ''y'' ''<p>y</p>'']
      else if markup = ''<div><h2>A</h2><p>x</p><hr><h2>B2</h2><p>z</p></div>'' then
        Some [elementNode ''H2'' ''A'' ''<h2>A</h2>'', elementNode ''P'' ''x'' ''<p>x</p>'',
              elementNode ''HR'' [] ''<hr>'',
              elementNode ''H2'' ''B2'' ''<h2>B2</h2>'', elementNode ''P'' ''z'' ''<p>z</p>'']
      else if markup = ''<div><h2>A</h2><p>x</p><hr><p>y</p></div>'' then
        Some [elementNode ''H2'' ''A'' ''<h2>A</h2>'', elementNode ''P'' ''x'' ''<p>x</p>'',
              elementNode ''HR'' [] ''<hr>'', elementNode ''P'' ''y'' ''<p>y</p>'']
      else if markup = ''<div>\<newline><p>intro</p><hr><h2>A</h2><p>x</p> </div>'' then
        Some [textNode ''\<newline>'', elementNode ''P'' ''intro'' ''<p>intro</p>'',
              elementNode ''HR'' [] ''<hr>'', elementNode ''H2'' ''A'' ''<h2>A</h2>'',
              elementNode ''P'' ''x'' ''<p>x</p>'', textNode '' '']
      else None)\<close>

text \<open>The state hooks as \<open>App\<close> creates them.\<close>

definition initialState :: "string \<Rightarrow> AppState" where
  "initialState now =
     \<lparr> rows = [createInitialRow now [] []], savedDocuments = [], currentDocumentId = None,
       operatingMode = Loading, appError = None \<rparr>"

text \<open>A list of documents in which none is older than one after it.\<close>

definition newestFirst :: "(string \<Rightarrow> int) \<Rightarrow> SavedDocument list \<Rightarrow> bool" where
  "newestFirst getTime docs =
     sorted_wrt (\<lambda>a b. getTime (updatedAt a) \<ge> getTime (updatedAt b)) docs"

text \<open>An environment for a save without a remote store.\<close>

definition exampleSaveEnv :: SaveEnv where
  "exampleSaveEnv =
     \<lparr> sv_client = False, sv_user = Response None None, sv_written = Response None None,
       sv_reloadNow = ''1702'', sv_reloadUser = Response None None,
       sv_reloadSelected = Response None None,
       sv_iso = ''2025-01-01T00:00:00.000Z'', sv_ms = ''1735689600000'',
       sv_getTime = (\<lambda>t. int (length t)), sv_updaterAtCall = True \<rparr>"

text \<open>A response of the remote store that carries an error.\<close>

definition hasError :: "'a response \<Rightarrow> bool" where
  "hasError r = (case r of Response _ (Some _) \<Rightarrow> True | Response _ None \<Rightarrow> False)"



definition v8TypeError :: "string \<Rightarrow> string" where
  "v8TypeError property = ''Cannot read properties of null (reading '' @ [CHR 0x27] @ property
                            @ [CHR 0x27] @ '')''"

text \<open>An environment in which the delete request fails.\<close>

definition exampleDeleteEnv :: DeleteEnv where
  "exampleDeleteEnv =
     \<lparr> del_client = True, del_error = Some (ErrorInstance ''Failed to fetch''),
       del_now = ''1703'', del_reloadNow = ''1704'', del_reloadUser = Response None None,
       del_reloadSelected = Response None None \<rparr>"

text \<open>
  A state in local mode, and a session from it: sections are added, deleted, edited and
  imported into, the document is saved, a new one is begun, the saved one is opened from
  the index and deleted.
\<close>

definition localState :: AppState where
  "localState = (initialState ''1700'')\<lparr>operatingMode := Local\<rparr>"

definition exampleSession :: "action list" where
  "exampleSession =
     [AddRow ''1701'', DeleteRow ''1700'', DeleteRow ''1701'', UpdateTitle ''1701'' ''Intro'',
      ImportDocument ''1702'' ''notes'', ImportDocument ''1703'' ''more notes'',
      Save exampleSaveEnv ''Draft'', New ''1704'',
      Open \<lparr> doc_id = ''1735689600000'', doc_title = ''Draft'',
             createdAt = ''2025-01-01T00:00:00.000Z'', updatedAt = ''2025-01-01T00:00:00.000Z'',
             doc_rows = [(createInitialRow ''1701'' [] [])\<lparr>row_title := ''Intro'', input := ''notes''\<rparr>,
                         createInitialRow ''1703'' ''more notes'' []] \<rparr>,
      DeleteRow ''1701'', DeleteSaved exampleDeleteEnv ''1735689600000'']"

text \<open>A storage that holds nothing.\<close>

definition emptyStore :: LocalStorage where
  "emptyStore =
     \<lparr> readFails = False, writeFails = False, document_rows = Missing,
       saved_documents = Missing, current_document_id = Missing \<rparr>"

text \<open>
  A document of the remote table whose \<open>rows\<close> column holds the empty array, which is
  the default of the column.
\<close>

definition emptyRemoteDocument :: SupabaseDocument where
  "emptyRemoteDocument =
     \<lparr> sb_id = ''d0'', user_id = ''u1'', sb_title = ''Draft'', sb_rows = [],
       created_at = ''2025-01-01T00:00:00.000Z'', updated_at = ''2025-01-01T00:00:00.000Z'' \<rparr>"

section \<open>A fragment of the parser of the browser\<close>

text \<open>
  \<open>DOMParser\<close> belongs to the browser. The handler wraps the markup in a \<open>div\<close>
  and reads the child nodes of that \<open>div\<close>. What follows is the parser on a fragment of
  HTML, enough for the markup that the merge effect writes: between the tags of the
  wrapper, character data and elements without children.

  Character data is every character but \<open><\<close>, which opens a tag, \<open>&\<close>, which may open
  a character reference, CR, which the parser replaces, and NUL, which it drops. A maximal
  run of it directly under the wrapper is one text node, whose \<open>textContent\<close> is the run.
\<close>

definition textChar :: "char \<Rightarrow> bool" where
  "textChar c = (c \<noteq> CHR ''<'' \<and> c \<noteq> CHR ''&'' \<and> c \<noteq> CHR 0x0D \<and> c \<noteq> CHR 0x00)"

text \<open>
  The serialisation of character data in \<open>outerHTML\<close>: the characters \<open>&\<close>,
  NO-BREAK SPACE, \<open><\<close> and \<open>>\<close> are written as references.
\<close>

definition escapeText :: "string \<Rightarrow> string" where
  "escapeText t =
     concat (map (\<lambda>c. if c = CHR ''&'' then ''&amp;''
                      else if c = CHR 0xA0 then ''&nbsp;''
                      else if c = CHR ''<'' then ''&lt;''
                      else if c = CHR ''>'' then ''&gt;''
                      else [c]) t)"

text \<open>
  The elements of the fragment, with their \<open>nodeName\<close>: a start tag without attributes,
  character data and the matching end tag give an element whose \<open>textContent\<close> is the
  character data and whose \<open>outerHTML\<close> is the two tags around its serialisation. The
  rule is a void element; the fragment has the tag that the merge effect writes and the
  bare one.
\<close>

definition containers :: "(string \<times> string) list" where
  "containers = [(''p'', ''P''), (''h1'', ''H1''), (''h2'', ''H2''), (''h3'', ''H3'')]"

definition ruleTags :: "string list" where
  \<open>ruleTags = [''hr'', ''hr class="my-4 border-gray-700"'']\<close>

text \<open>
  Where the parser is in the markup: between elements, with the character data read since
  the last one; in a start tag, with what was read of it; inside an element, with its name
  and its character data; in the end tag of that element; or in markup that is outside the
  fragment.
\<close>

datatype position =
    Between string
  | StartTag string
  | Inside string string
  | EndTag string string string
  | Unknown

text \<open>The text node that pending character data becomes, none for no data.\<close>

definition flush :: "string \<Rightarrow> node list" where
  "flush t = (if t = [] then [] else [textNode t])"

text \<open>One character: the nodes that are complete with it, and the new position.\<close>

definition step :: "position \<Rightarrow> char \<Rightarrow> node list \<times> position" where
  "step p c =
     (case p of
        Between t \<Rightarrow>
          if c = CHR ''<'' then (flush t, StartTag [])
          else if textChar c then ([], Between (t @ [c]))
          else ([], Unknown)
      | StartTag tag \<Rightarrow>
          if c = CHR ''>'' then
            (if tag \<in> set ruleTags
             then ([elementNode ''HR'' [] (''<'' @ tag @ ''>'')], Between [])
             else if map_of containers tag \<noteq> None then ([], Inside tag [])
             else ([], Unknown))
          else ([], StartTag (tag @ [c]))
      | Inside name t \<Rightarrow>
          if c = CHR ''<'' then ([], EndTag name t [])
          else if textChar c then ([], Inside name (t @ [c]))
          else ([], Unknown)
      | EndTag name t tag \<Rightarrow>
          if c = CHR ''>'' then
            (case map_of containers name of
               Some upper \<Rightarrow>
                 if tag = ''/'' @ name
                 then ([elementNode upper t
                          (''<'' @ name @ ''>'' @ escapeText t @ ''</'' @ name @ ''>'')],
                       Between [])
                 else ([], Unknown)
             | None \<Rightarrow> ([], Unknown))
          else ([], EndTag name t (tag @ [c]))
      | Unknown \<Rightarrow> ([], Unknown))"

primrec consume :: "position \<Rightarrow> string \<Rightarrow> node list \<times> position" where
  "consume p [] = ([], p)"
| "consume p (c # cs) =
     (case step p c of (out, p') \<Rightarrow> case consume p' cs of (ns, q) \<Rightarrow> (out @ ns, q))"

text \<open>
  The child nodes of the wrapper for markup of the fragment, \<open>None\<close> for markup outside
  it.
\<close>

definition fragmentNodes :: "string \<Rightarrow> node list option" where
  "fragmentNodes s =
     (case consume (Between []) s of
        (ns, Between t) \<Rightarrow> Some (ns @ flush t)
      | _ \<Rightarrow> None)"

text \<open>The markup between \<open><div>\<close> and \<open></div>\<close>, if it is so wrapped.\<close>

definition unwrap :: "string \<Rightarrow> string option" where
  "unwrap markup =
     (if 11 \<le> length markup \<and> take 5 markup = ''<div>''
         \<and> drop (length markup - 6) markup = ''</div>''
      then Some (take (length markup - 11) (drop 5 markup))
      else None)"

text \<open>
  A parser that reads markup of the fragment as above; \<open>elsewhere\<close> stands for the
  browser on all other markup.
\<close>

definition domParser :: "(string \<Rightarrow> node list option) \<Rightarrow> string \<Rightarrow> node list option" where
  "domParser elsewhere markup =
     (case unwrap markup of
        None \<Rightarrow> elsewhere markup
      | Some inner \<Rightarrow>
          (case fragmentNodes inner of
             None \<Rightarrow> elsewhere markup
           | Some ns \<Rightarrow> Some ns))"












section \<open>Trimming\<close>

lemma trim_Nil: "trim [] = []" by (simp add: trim_def)

lemma last_dropWhile: "dropWhile P xs \<noteq> [] \<Longrightarrow> last (dropWhile P xs) = last xs"
  by (metis last_appendR takeWhile_dropWhile_id)

lemma trimmed_trim: "trimmed (trim s)"
proof (cases "trim s = []")
  case True
  then show ?thesis by (simp add: trimmed_def)
next
  case False
  define a where "a = dropWhile isWhitespace s"
  define b where "b = dropWhile isWhitespace (rev a)"
  have t: "trim s = rev b" by (simp add: trim_def a_def b_def)
  with False have b: "b \<noteq> []" by simp
  then have ra: "rev a \<noteq> []" by (auto simp add: b_def)
  then have a: "a \<noteq> []" by simp
  have "\<not> isWhitespace (hd b)" using b unfolding b_def by (rule hd_dropWhile)
  then have l: "\<not> isWhitespace (last (trim s))" using b by (simp add: t last_rev)
  have "last b = last (rev a)" using b unfolding b_def by (rule last_dropWhile)
  then have "hd (trim s) = hd a" using a b by (simp add: t hd_rev last_rev)
  moreover have "\<not> isWhitespace (hd a)" using a unfolding a_def by (rule hd_dropWhile)
  ultimately show ?thesis using l by (simp add: trimmed_def)
qed


section \<open>Importing a text file\<close>

lemma map_enumerate_last:
  "xs \<noteq> [] \<Longrightarrow>
   map (\<lambda>(index, x). if index = length xs - 1 then f x else x) (enumerate 0 xs)
     = butlast xs @ [f (last xs)]"
proof (rule nth_equalityI)
  assume ne: "xs \<noteq> []"
  show "length (map (\<lambda>(index, x). if index = length xs - 1 then f x else x) (enumerate 0 xs))
          = length (butlast xs @ [f (last xs)])"
    using ne by simp
next
  fix i
  assume ne: "xs \<noteq> []"
    and i: "i < length (map (\<lambda>(index, x). if index = length xs - 1 then f x else x)
                            (enumerate 0 xs))"
  then have il: "i < length xs" by simp
  show "map (\<lambda>(index, x). if index = length xs - 1 then f x else x) (enumerate 0 xs) ! i
          = (butlast xs @ [f (last xs)]) ! i"
  proof (cases "i = length xs - 1")
    case True
    then show ?thesis using ne il by (simp add: nth_enumerate_eq nth_append last_conv_nth)
  next
    case False
    then have "i < length xs - 1" using il by arith
    then show ?thesis using il False by (simp add: nth_enumerate_eq nth_append nth_butlast)
  qed
qed

text \<open>
  Claim C10. Importing a text: when the list is non-empty and the input of its last
  section is empty or only white space, the text becomes the input of that last section,
  the number of sections and every other section stay as they are; in every other case a
  new section whose input is the text is appended and the sections before it stay as they
  are.
\<close>

theorem handleImportDocument_last_or_append:
  "(prevRows \<noteq> [] \<and> trim (input (last prevRows)) = [] \<longrightarrow>
      handleImportDocument now text prevRows
        = butlast prevRows @ [(last prevRows)\<lparr>input := text\<rparr>]
      \<and> length (handleImportDocument now text prevRows) = length prevRows)
   \<and> (\<not> (prevRows \<noteq> [] \<and> trim (input (last prevRows)) = []) \<longrightarrow>
      handleImportDocument now text prevRows = prevRows @ [createInitialRow now text []]
      \<and> input (createInitialRow now text []) = text)"
proof (intro conjI impI)
  assume h: "prevRows \<noteq> [] \<and> trim (input (last prevRows)) = []"
  then have l: "prevRows ! (length prevRows - 1) = last prevRows"
    by (simp add: last_conv_nth)
  show eq: "handleImportDocument now text prevRows
        = butlast prevRows @ [(last prevRows)\<lparr>input := text\<rparr>]"
    using h l map_enumerate_last [of prevRows "\<lambda>row. row\<lparr>input := text\<rparr>"]
    by (simp add: handleImportDocument_def)
  show "length (handleImportDocument now text prevRows) = length prevRows"
    using h by (simp add: eq)
next
  assume h: "\<not> (prevRows \<noteq> [] \<and> trim (input (last prevRows)) = [])"
  show "handleImportDocument now text prevRows = prevRows @ [createInitialRow now text []]"
  proof (cases "prevRows = []")
    case True
    then show ?thesis by (simp add: handleImportDocument_def)
  next
    case False
    then have "prevRows ! (length prevRows - 1) = last prevRows"
      by (simp add: last_conv_nth)
    then show ?thesis using h False by (simp add: handleImportDocument_def)
  qed
next
  show "input (createInitialRow now text []) = text"
    by (simp add: createInitialRow_def)
qed


theorem handleImportDocument_last_or_append_witness:
  "([createInitialRow ''1700'' ''  '' []] \<noteq> []
      \<and> trim (input (last [createInitialRow ''1700'' ''  '' []])) = [])
   \<and> handleImportDocument ''1701'' ''abc'' [createInitialRow ''1700'' ''  '' []]
       = [(createInitialRow ''1700'' ''  '' [])\<lparr>input := ''abc''\<rparr>]
   \<and> length (handleImportDocument ''1701'' ''abc'' [createInitialRow ''1700'' ''  '' []]) = 1
   \<and> \<not> ([createInitialRow ''1700'' ''draft'' []] \<noteq> []
      \<and> trim (input (last [createInitialRow ''1700'' ''draft'' []])) = [])
   \<and> handleImportDocument ''1701'' ''abc'' [createInitialRow ''1700'' ''draft'' []]
       = [createInitialRow ''1700'' ''draft'' [], createInitialRow ''1701'' ''abc'' []]"
  using handleImportDocument_last_or_append [of "[createInitialRow ''1700'' ''  '' []]" "''1701''" "''abc''"]
    handleImportDocument_last_or_append [of "[createInitialRow ''1700'' ''draft'' []]" "''1701''" "''abc''"]
  by (simp add: createInitialRow_def trim_def isWhitespace_def)

section \<open>The scan of the parsed nodes\<close>

text \<open>The index kept for \<open>currentSection\<close> is always in range.\<close>

lemma scanNode_currentIsLast: "currentIsLast st \<Longrightarrow> currentIsLast (scanNode st n)"
  by (auto simp add: currentIsLast_def scanNode_def appendOutput_def Let_def split: option.splits)

lemma foldl_scanNode_currentIsLast:
  "currentIsLast st \<Longrightarrow> currentIsLast (foldl scanNode st ns)"
  by (induction ns arbitrary: st) (simp_all add: scanNode_currentIsLast)

lemma scanNodes_currentIsLast: "currentIsLast (scanNodes ns)"
  unfolding scanNodes_def by (rule foldl_scanNode_currentIsLast) (simp add: currentIsLast_def)

lemma scanNode_H2:
  "nodeName n = ''H2'' \<Longrightarrow>
   scanNode st n = \<lparr> newSectionsData = newSectionsData st @ [headingSection n []],
                     currentSection = Some (length (newSectionsData st)) \<rparr>"
  by (simp add: scanNode_def headingSection_def bodyMarkup_def)

lemma scanNode_HR: "nodeName n = ''HR'' \<Longrightarrow> scanNode st n = st"
  by (simp add: scanNode_def)

lemma appendOutput_last:
  "appendOutput (length secs) s (secs @ [x]) = secs @ [x\<lparr>outputHTML := outputHTML x @ s\<rparr>]"
  by (simp add: appendOutput_def)

lemma scanNode_open:
  assumes "nodeName n \<noteq> ''H2''"
  shows "scanNode \<lparr> newSectionsData = secs @ [x], currentSection = Some (length secs) \<rparr> n
         = \<lparr> newSectionsData = secs @ [x\<lparr>outputHTML := outputHTML x @ bodyMarkup [n]\<rparr>],
             currentSection = Some (length secs) \<rparr>"
  using assms by (simp add: scanNode_def appendOutput_last bodyMarkup_def)

lemma bodyMarkup_Cons: "bodyMarkup (n # ns) = bodyMarkup [n] @ bodyMarkup ns"
  by (simp add: bodyMarkup_def)

lemma bodyMarkup_Nil: "bodyMarkup [] = []"
  by (simp add: bodyMarkup_def)

lemma scan_body:
  "\<forall>n\<in>set body. nodeName n \<noteq> ''H2'' \<Longrightarrow>
   foldl scanNode \<lparr> newSectionsData = secs @ [x], currentSection = Some (length secs) \<rparr> body
     = \<lparr> newSectionsData = secs @ [x\<lparr>outputHTML := outputHTML x @ bodyMarkup body\<rparr>],
         currentSection = Some (length secs) \<rparr>"
proof (induction body arbitrary: x)
  case Nil
  then show ?case by (simp add: bodyMarkup_Nil)
next
  case (Cons n ns)
  then have "nodeName n \<noteq> ''H2''" and rest: "\<forall>m\<in>set ns. nodeName m \<noteq> ''H2''" by simp_all
  then show ?case
    using Cons.IH [OF rest] by (simp add: scanNode_open bodyMarkup_Cons [of n ns])
qed

lemma scan_segment:
  assumes "nodeName h = ''H2''" and "\<forall>n\<in>set body. nodeName n \<noteq> ''H2''"
  shows "foldl scanNode st (h # body)
         = \<lparr> newSectionsData = newSectionsData st @ [headingSection h body],
             currentSection = Some (length (newSectionsData st)) \<rparr>"
  using assms by (simp add: scanNode_H2 scan_body) (simp add: headingSection_def bodyMarkup_Nil)

lemma scan_segments:
  "\<forall>(h, body)\<in>set segs. nodeName h = ''H2'' \<and> (\<forall>n\<in>set body. nodeName n \<noteq> ''H2'') \<Longrightarrow>
   newSectionsData (foldl scanNode st (concat (map (\<lambda>(h, body). h # body) segs)))
     = newSectionsData st @ map (\<lambda>(h, body). headingSection h body) segs"
proof (induction segs arbitrary: st)
  case Nil
  then show ?case by simp
next
  case (Cons seg segs)
  obtain h body where seg: "seg = (h, body)" by (cases seg)
  from Cons.prems seg have h: "nodeName h = ''H2''" and b: "\<forall>n\<in>set body. nodeName n \<noteq> ''H2''"
    and rest: "\<forall>(h, body)\<in>set segs. nodeName h = ''H2'' \<and> (\<forall>n\<in>set body. nodeName n \<noteq> ''H2'')"
    by auto
  have "concat (map (\<lambda>(h, body). h # body) (seg # segs))
          = (h # body) @ concat (map (\<lambda>(h, body). h # body) segs)"
    by (simp add: seg)
  then have "foldl scanNode st (concat (map (\<lambda>(h, body). h # body) (seg # segs)))
        = foldl scanNode (foldl scanNode st (h # body)) (concat (map (\<lambda>(h, body). h # body) segs))"
    by (simp only: foldl_append)
  also have "foldl scanNode st (h # body)
        = \<lparr> newSectionsData = newSectionsData st @ [headingSection h body],
            currentSection = Some (length (newSectionsData st)) \<rparr>"
    by (rule scan_segment [OF h b])
  finally show ?case
    using Cons.IH [OF rest] by (simp add: seg)
qed

lemma scan_pre_skipped:
  "\<forall>n\<in>set pre. nodeName n \<noteq> ''H2'' \<and> skipped n \<Longrightarrow>
   foldl scanNode \<lparr> newSectionsData = [], currentSection = None \<rparr> pre
     = \<lparr> newSectionsData = [], currentSection = None \<rparr>"
proof (induction pre)
  case Nil
  then show ?case by simp
next
  case (Cons n ns)
  then have "scanNode \<lparr> newSectionsData = [], currentSection = None \<rparr> n
        = \<lparr> newSectionsData = [], currentSection = None \<rparr>"
    by (auto simp add: scanNode_def skipped_def)
  then show ?case using Cons by simp
qed

lemma scanNode_first_content:
  assumes "nodeName n \<noteq> ''H2''" and "\<not> skipped n"
  shows "scanNode \<lparr> newSectionsData = [], currentSection = None \<rparr> n
         = \<lparr> newSectionsData = [\<lparr> sec_title = ''Untitled Section'', outputHTML = bodyMarkup [n] \<rparr>],
             currentSection = Some 0 \<rparr>"
  using assms by (simp add: scanNode_def skipped_def appendOutput_def bodyMarkup_def)

lemma scan_pre:
  assumes "\<forall>n\<in>set pre. nodeName n \<noteq> ''H2''" and "\<exists>n\<in>set pre. \<not> skipped n"
  shows "foldl scanNode \<lparr> newSectionsData = [], currentSection = None \<rparr> pre
         = \<lparr> newSectionsData = [\<lparr> sec_title = ''Untitled Section'',
                                   outputHTML = bodyMarkup (dropWhile skipped pre) \<rparr>],
             currentSection = Some 0 \<rparr>"
  using assms
proof (induction pre)
  case Nil
  then show ?case by simp
next
  case (Cons n ns)
  show ?case
  proof (cases "skipped n")
    case True
    then have "scanNode \<lparr> newSectionsData = [], currentSection = None \<rparr> n
        = \<lparr> newSectionsData = [], currentSection = None \<rparr>"
      using Cons.prems by (auto simp add: scanNode_def skipped_def)
    then show ?thesis using Cons True by simp
  next
    case False
    have n: "nodeName n \<noteq> ''H2''" and ns: "\<forall>m\<in>set ns. nodeName m \<noteq> ''H2''"
      using Cons.prems by simp_all
    show ?thesis
      using scan_body [OF ns, of "[]" "\<lparr> sec_title = ''Untitled Section'', outputHTML = bodyMarkup [n] \<rparr>"]
      by (simp add: False scanNode_first_content [OF n False] bodyMarkup_Cons [of n ns])
  qed
qed

lemma scanNodes_filter_HR:
  "foldl scanNode st (filter (\<lambda>n. nodeName n \<noteq> ''HR'') ns) = foldl scanNode st ns"
  by (induction ns arbitrary: st) (simp_all add: scanNode_HR)

lemma parsedSections_trimmed: "\<forall>section\<in>set (parsedSections ns). trimmed (outputHTML section)"
  by (simp add: parsedSections_def trimSections_def trimmed_trim)

lemma parsedSections_pre_segments:
  assumes pre: "\<forall>n\<in>set pre. nodeName n \<noteq> ''H2''"
    and content: "\<exists>n\<in>set pre. \<not> skipped n"
    and segs: "\<forall>(h, body)\<in>set segs. nodeName h = ''H2'' \<and> (\<forall>n\<in>set body. nodeName n \<noteq> ''H2'')"
  shows "newSectionsData (scanNodes (pre @ concat (map (\<lambda>(h, body). h # body) segs)))
         = \<lparr> sec_title = ''Untitled Section'', outputHTML = bodyMarkup (dropWhile skipped pre) \<rparr>
           # map (\<lambda>(h, body). headingSection h body) segs"
  unfolding scanNodes_def foldl_append scan_pre [OF pre content]
  using scan_segments [OF segs] by simp


lemma updateRows_length: "length (updateRows secs rs) = length rs"
  by (simp add: updateRows_def)

lemma updateRows_nth:
  assumes "i < length rs" and "i < length secs"
  shows "updateRows secs rs ! i
         = (rs ! i)\<lparr>row_title := sec_title (secs ! i), row_output := outputHTML (secs ! i)\<rparr>"
proof -
  have "updateRows secs rs ! i
        = (let newData = secs ! i; originalRow = rs ! i
           in if row_title originalRow \<noteq> sec_title newData
                 \<or> row_output originalRow \<noteq> outputHTML newData
              then originalRow\<lparr>row_title := sec_title newData, row_output := outputHTML newData\<rparr>
              else originalRow)"
    using assms by (simp add: updateRows_def nth_enumerate_eq Let_def)
  then show ?thesis by (auto simp add: Let_def)
qed

lemma updateRows_nth_same:
  assumes "i < length rs" and "i < length secs"
    and "row_title (rs ! i) = sec_title (secs ! i)" and "row_output (rs ! i) = outputHTML (secs ! i)"
  shows "updateRows secs rs ! i = rs ! i"
  using assms by (simp add: updateRows_def nth_enumerate_eq Let_def)



lemma example_one_heading:
  "parsedSections [elementNode ''H2'' ''A'' ''<h2>A</h2>'', elementNode ''P'' ''x'' ''<p>x</p>'',
              elementNode ''HR'' [] ''<hr>'', elementNode ''P'' ''y'' ''<p>y</p>'']
   = [\<lparr> sec_title = ''A'', outputHTML = ''<p>x</p><p>y</p>'' \<rparr>]"
  by (simp add: parsedSections_def scanNodes_def scanNode_def trimSections_def elementNode_def
        appendOutput_def nodeMarkup_def orElse_def trim_def isWhitespace_def)

lemma example_two_headings:
  "parsedSections [elementNode ''H2'' ''A'' ''<h2>A</h2>'', elementNode ''P'' ''x'' ''<p>x</p>'',
              elementNode ''HR'' [] ''<hr>'',
              elementNode ''H2'' ''B2'' ''<h2>B2</h2>'', elementNode ''P'' ''z'' ''<p>z</p>'']
   = [\<lparr> sec_title = ''A'', outputHTML = ''<p>x</p>'' \<rparr>,
      \<lparr> sec_title = ''B2'', outputHTML = ''<p>z</p>'' \<rparr>]"
  by (simp add: parsedSections_def scanNodes_def scanNode_def trimSections_def elementNode_def
        appendOutput_def nodeMarkup_def orElse_def trim_def isWhitespace_def)

section \<open>Synchronising the continuous view\<close>

text \<open>
  Claim C1. When the number of sections parsed from the continuous content differs from
  the number of rows, the handler ends with the structural-mismatch error, which carries
  the number of parsed sections and the number of rows, and the rows are what they were.
\<close>

theorem sync_refuses_changed_section_count:
  assumes "parseFromString (''<div>'' @ continuousContent @ ''</div>'') = Some parsedNodes"
    and "length (parsedSections parsedNodes) \<noteq> length rs"
  shows "handleSyncContinuousChanges parseFromString continuousContent rs
         = (rs, Failure (StructuralMismatch (length (parsedSections parsedNodes)) (length rs)))"
  using assms by (simp add: handleSyncContinuousChanges_def syncContinuousChanges_def)

theorem sync_refuses_changed_section_count_witness:
  "exampleDom (''<div>'' @ ''<h2>A</h2><p>x</p><hr><p>y</p>'' @ ''</div>'')
     = Some [elementNode ''H2'' ''A'' ''<h2>A</h2>'', elementNode ''P'' ''x'' ''<p>x</p>'',
              elementNode ''HR'' [] ''<hr>'', elementNode ''P'' ''y'' ''<p>y</p>'']
   \<and> length (parsedSections [elementNode ''H2'' ''A'' ''<h2>A</h2>'', elementNode ''P'' ''x'' ''<p>x</p>'',
              elementNode ''HR'' [] ''<hr>'', elementNode ''P'' ''y'' ''<p>y</p>''])
       \<noteq> length [exampleRow ''1700'' ''A'' ''<p>x</p>'', exampleRow ''1701'' ''B'' ''<p>y</p>'']
   \<and> handleSyncContinuousChanges exampleDom ''<h2>A</h2><p>x</p><hr><p>y</p>''
         [exampleRow ''1700'' ''A'' ''<p>x</p>'', exampleRow ''1701'' ''B'' ''<p>y</p>'']
       = ([exampleRow ''1700'' ''A'' ''<p>x</p>'', exampleRow ''1701'' ''B'' ''<p>y</p>''],
          Failure (StructuralMismatch 1 2))"
  using sync_refuses_changed_section_count
    [of exampleDom "''<h2>A</h2><p>x</p><hr><p>y</p>''"
        "[elementNode ''H2'' ''A'' ''<h2>A</h2>'', elementNode ''P'' ''x'' ''<p>x</p>'',
              elementNode ''HR'' [] ''<hr>'', elementNode ''P'' ''y'' ''<p>y</p>'']"
        "[exampleRow ''1700'' ''A'' ''<p>x</p>'', exampleRow ''1701'' ''B'' ''<p>y</p>'']"]
  by (simp add: example_one_heading exampleDom_def)

text \<open>
  Claim C6. When the sync succeeds, the row at every position takes the title and the
  output parsed at that position; a row whose title and output are already those is
  returned as it is; and no other field of any row changes.
\<close>

theorem sync_pairs_by_position:
  assumes "parseFromString (''<div>'' @ continuousContent @ ''</div>'') = Some parsedNodes"
    and "length (parsedSections parsedNodes) = length rs"
  shows "snd (handleSyncContinuousChanges parseFromString continuousContent rs) = Success
     \<and> length (fst (handleSyncContinuousChanges parseFromString continuousContent rs)) = length rs
     \<and> (\<forall>i<length rs.
          fst (handleSyncContinuousChanges parseFromString continuousContent rs) ! i
            = (rs ! i)\<lparr>row_title := sec_title (parsedSections parsedNodes ! i),
                       row_output := outputHTML (parsedSections parsedNodes ! i)\<rparr>
          \<and> (row_title (rs ! i) = sec_title (parsedSections parsedNodes ! i)
               \<and> row_output (rs ! i) = outputHTML (parsedSections parsedNodes ! i)
             \<longrightarrow> fst (handleSyncContinuousChanges parseFromString continuousContent rs) ! i = rs ! i)
          \<and> row_id (fst (handleSyncContinuousChanges parseFromString continuousContent rs) ! i)
              = row_id (rs ! i)
          \<and> input (fst (handleSyncContinuousChanges parseFromString continuousContent rs) ! i)
              = input (rs ! i)
          \<and> aiPrompt (fst (handleSyncContinuousChanges parseFromString continuousContent rs) ! i)
              = aiPrompt (rs ! i)
          \<and> isExpanded (fst (handleSyncContinuousChanges parseFromString continuousContent rs) ! i)
              = isExpanded (rs ! i)
          \<and> isLoading (fst (handleSyncContinuousChanges parseFromString continuousContent rs) ! i)
              = isLoading (rs ! i)
          \<and> error (fst (handleSyncContinuousChanges parseFromString continuousContent rs) ! i)
              = error (rs ! i)
          \<and> sectionInputs (fst (handleSyncContinuousChanges parseFromString continuousContent rs) ! i)
              = sectionInputs (rs ! i)
          \<and> expandedInputs (fst (handleSyncContinuousChanges parseFromString continuousContent rs) ! i)
              = expandedInputs (rs ! i))"
proof -
  have h: "handleSyncContinuousChanges parseFromString continuousContent rs
           = (updateRows (parsedSections parsedNodes) rs, Success)"
    using assms
    by (simp add: handleSyncContinuousChanges_def syncContinuousChanges_def handleUpdateAllRows_def)
  show ?thesis
    unfolding h using assms(2)
    by (simp add: updateRows_length updateRows_nth updateRows_nth_same)
qed

theorem sync_pairs_by_position_witness:
  "exampleDom (''<div>'' @ ''<h2>A</h2><p>x</p><hr><h2>B2</h2><p>z</p>'' @ ''</div>'')
     = Some [elementNode ''H2'' ''A'' ''<h2>A</h2>'', elementNode ''P'' ''x'' ''<p>x</p>'',
              elementNode ''HR'' [] ''<hr>'',
              elementNode ''H2'' ''B2'' ''<h2>B2</h2>'', elementNode ''P'' ''z'' ''<p>z</p>'']
   \<and> length (parsedSections [elementNode ''H2'' ''A'' ''<h2>A</h2>'', elementNode ''P'' ''x'' ''<p>x</p>'',
              elementNode ''HR'' [] ''<hr>'',
              elementNode ''H2'' ''B2'' ''<h2>B2</h2>'', elementNode ''P'' ''z'' ''<p>z</p>''])
       = length [exampleRow ''1700'' ''A'' ''<p>x</p>'', exampleRow ''1701'' ''B'' ''<p>y</p>'']
   \<and> (1::nat) < length [exampleRow ''1700'' ''A'' ''<p>x</p>'', exampleRow ''1701'' ''B'' ''<p>y</p>'']
   \<and> snd (handleSyncContinuousChanges exampleDom ''<h2>A</h2><p>x</p><hr><h2>B2</h2><p>z</p>''
         [exampleRow ''1700'' ''A'' ''<p>x</p>'', exampleRow ''1701'' ''B'' ''<p>y</p>'']) = Success
   \<and> fst (handleSyncContinuousChanges exampleDom ''<h2>A</h2><p>x</p><hr><h2>B2</h2><p>z</p>''
         [exampleRow ''1700'' ''A'' ''<p>x</p>'', exampleRow ''1701'' ''B'' ''<p>y</p>'']) ! 0
       = exampleRow ''1700'' ''A'' ''<p>x</p>''
   \<and> fst (handleSyncContinuousChanges exampleDom ''<h2>A</h2><p>x</p><hr><h2>B2</h2><p>z</p>''
         [exampleRow ''1700'' ''A'' ''<p>x</p>'', exampleRow ''1701'' ''B'' ''<p>y</p>'']) ! 1
       = exampleRow ''1701'' ''B2'' ''<p>z</p>''"
  using sync_pairs_by_position
    [of exampleDom "''<h2>A</h2><p>x</p><hr><h2>B2</h2><p>z</p>''"
        "[elementNode ''H2'' ''A'' ''<h2>A</h2>'', elementNode ''P'' ''x'' ''<p>x</p>'',
              elementNode ''HR'' [] ''<hr>'',
              elementNode ''H2'' ''B2'' ''<h2>B2</h2>'', elementNode ''P'' ''z'' ''<p>z</p>'']"
        "[exampleRow ''1700'' ''A'' ''<p>x</p>'', exampleRow ''1701'' ''B'' ''<p>y</p>'']"]
  by (simp add: example_two_headings exampleDom_def exampleRow_def createInitialRow_def orElse_def
        numeral_2_eq_2 All_less_Suc)

text \<open>
  Claim C7. Let the nodes before the first level-2 heading contain one that is no rule and
  whose text is not only white space. Then the first parsed section is titled
  \<open>Untitled Section\<close> and holds, trimmed, the markup of these nodes from the first such
  node on, and the sections of the headings follow; this is no error, and the sync
  succeeds when the rows are as many as these sections. Rules add nothing to any section:
  the result is the same without them. The output of every parsed section has no white space at
  either end.
\<close>

theorem content_before_first_heading:
  assumes pre: "\<forall>n\<in>set pre. nodeName n \<noteq> ''H2''"
    and content: "\<exists>n\<in>set pre. nodeName n \<noteq> ''HR'' \<and> trim (textContent n) \<noteq> []"
    and segs: "\<forall>(h, body)\<in>set segs. nodeName h = ''H2'' \<and> (\<forall>n\<in>set body. nodeName n \<noteq> ''H2'')"
  shows "parsedSections (pre @ concat (map (\<lambda>(h, body). h # body) segs))
           = \<lparr> sec_title = ''Untitled Section'',
               outputHTML = trim (bodyMarkup (dropWhile skipped pre)) \<rparr>
             # map (\<lambda>(h, body). \<lparr> sec_title = trim (orElse (textContent h) ''Untitled Section''),
                                    outputHTML = trim (bodyMarkup body) \<rparr>) segs
         \<and> (parseFromString (''<div>'' @ continuousContent @ ''</div>'')
               = Some (pre @ concat (map (\<lambda>(h, body). h # body) segs))
             \<and> length rs = Suc (length segs)
            \<longrightarrow> snd (handleSyncContinuousChanges parseFromString continuousContent rs) = Success)
         \<and> parsedSections (filter (\<lambda>n. nodeName n \<noteq> ''HR'') parsedNodes) = parsedSections parsedNodes
         \<and> (\<forall>section\<in>set (parsedSections parsedNodes). trimmed (outputHTML section))"
proof (intro conjI impI)
  from content have c: "\<exists>n\<in>set pre. \<not> skipped n" by (auto simp add: skipped_def)
  show sections: "parsedSections (pre @ concat (map (\<lambda>(h, body). h # body) segs))
           = \<lparr> sec_title = ''Untitled Section'',
               outputHTML = trim (bodyMarkup (dropWhile skipped pre)) \<rparr>
             # map (\<lambda>(h, body). \<lparr> sec_title = trim (orElse (textContent h) ''Untitled Section''),
                                    outputHTML = trim (bodyMarkup body) \<rparr>) segs"
    unfolding parsedSections_def parsedSections_pre_segments [OF pre c segs]
    by (simp add: trimSections_def headingSection_def split_def)
  show "snd (handleSyncContinuousChanges parseFromString continuousContent rs) = Success"
    if "parseFromString (''<div>'' @ continuousContent @ ''</div>'')
               = Some (pre @ concat (map (\<lambda>(h, body). h # body) segs))
        \<and> length rs = Suc (length segs)"
    using that
    by (simp add: handleSyncContinuousChanges_def syncContinuousChanges_def sections)
  show "parsedSections (filter (\<lambda>n. nodeName n \<noteq> ''HR'') parsedNodes) = parsedSections parsedNodes"
    by (simp add: parsedSections_def scanNodes_def scanNodes_filter_HR)
  show "\<forall>section\<in>set (parsedSections parsedNodes). trimmed (outputHTML section)"
    by (rule parsedSections_trimmed)
qed

theorem content_before_first_heading_witness:
  "list_all (\<lambda>n. nodeName n \<noteq> ''H2'')
      [textNode ''\<newline>'', elementNode ''P'' ''intro'' ''<p>intro</p>'',
       elementNode ''HR'' [] ''<hr>'']
   \<and> (\<exists>n\<in>set [textNode ''\<newline>'', elementNode ''P'' ''intro'' ''<p>intro</p>'',
               elementNode ''HR'' [] ''<hr>'']. nodeName n \<noteq> ''HR'' \<and> trim (textContent n) \<noteq> [])
   \<and> list_all (\<lambda>(h, body). nodeName h = ''H2'' \<and> list_all (\<lambda>n. nodeName n \<noteq> ''H2'') body)
         [(elementNode ''H2'' ''A'' ''<h2>A</h2>'',
           [elementNode ''P'' ''x'' ''<p>x</p>'', textNode '' ''])]
   \<and> parsedSections [textNode ''\<newline>'', elementNode ''P'' ''intro'' ''<p>intro</p>'',
                      elementNode ''HR'' [] ''<hr>'', elementNode ''H2'' ''A'' ''<h2>A</h2>'',
                      elementNode ''P'' ''x'' ''<p>x</p>'', textNode '' '']
       = [\<lparr> sec_title = ''Untitled Section'', outputHTML = ''<p>intro</p>'' \<rparr>,
          \<lparr> sec_title = ''A'', outputHTML = ''<p>x</p>'' \<rparr>]
   \<and> exampleDom (''<div>'' @ ''\<newline><p>intro</p><hr><h2>A</h2><p>x</p> '' @ ''</div>'')
       = Some ([textNode ''\<newline>'', elementNode ''P'' ''intro'' ''<p>intro</p>'',
                elementNode ''HR'' [] ''<hr>'']
               @ concat (map (\<lambda>(h, body). h # body)
                   [(elementNode ''H2'' ''A'' ''<h2>A</h2>'',
                     [elementNode ''P'' ''x'' ''<p>x</p>'', textNode '' ''])]))
   \<and> length [exampleRow ''1700'' ''A'' ''<p>x</p>'', exampleRow ''1701'' ''B'' ''<p>y</p>'']
       = Suc (length [(elementNode ''H2'' ''A'' ''<h2>A</h2>'',
                       [elementNode ''P'' ''x'' ''<p>x</p>'', textNode '' ''])])
   \<and> handleSyncContinuousChanges exampleDom ''\<newline><p>intro</p><hr><h2>A</h2><p>x</p> ''
         [exampleRow ''1700'' ''A'' ''<p>x</p>'', exampleRow ''1701'' ''B'' ''<p>y</p>'']
       = ([exampleRow ''1700'' ''Untitled Section'' ''<p>intro</p>'',
           exampleRow ''1701'' ''A'' ''<p>x</p>''], Success)"
proof -
  let ?pre = "[textNode ''\<newline>'', elementNode ''P'' ''intro'' ''<p>intro</p>'',
               elementNode ''HR'' [] ''<hr>'']"
  let ?segs = "[(elementNode ''H2'' ''A'' ''<h2>A</h2>'',
                 [elementNode ''P'' ''x'' ''<p>x</p>'', textNode '' ''])]"
  let ?rs = "[exampleRow ''1700'' ''A'' ''<p>x</p>'', exampleRow ''1701'' ''B'' ''<p>y</p>'']"
  have pre: "\<forall>n\<in>set ?pre. nodeName n \<noteq> ''H2''"
    by (simp add: elementNode_def textNode_def)
  have content: "\<exists>n\<in>set ?pre. nodeName n \<noteq> ''HR'' \<and> trim (textContent n) \<noteq> []"
    by (simp add: elementNode_def textNode_def trim_def isWhitespace_def)
  have segs: "\<forall>(h, body)\<in>set ?segs. nodeName h = ''H2'' \<and> (\<forall>n\<in>set body. nodeName n \<noteq> ''H2'')"
    by (simp add: elementNode_def textNode_def)
  have parse: "exampleDom (''<div>'' @ ''\<newline><p>intro</p><hr><h2>A</h2><p>x</p> '' @ ''</div>'')
       = Some (?pre @ concat (map (\<lambda>(h, body). h # body) ?segs))"
    by (simp add: exampleDom_def)
  have len: "length ?rs = Suc (length ?segs)" by simp
  note inst = content_before_first_heading
    [OF pre content segs, of exampleDom "''\<newline><p>intro</p><hr><h2>A</h2><p>x</p> ''" ?rs]
  have sections: "parsedSections (?pre @ concat (map (\<lambda>(h, body). h # body) ?segs))
       = [\<lparr> sec_title = ''Untitled Section'', outputHTML = ''<p>intro</p>'' \<rparr>,
          \<lparr> sec_title = ''A'', outputHTML = ''<p>x</p>'' \<rparr>]"
    using inst
    by (simp add: elementNode_def textNode_def skipped_def bodyMarkup_def nodeMarkup_def
          orElse_def trim_def isWhitespace_def)
  have "snd (handleSyncContinuousChanges exampleDom
          ''\<newline><p>intro</p><hr><h2>A</h2><p>x</p> '' ?rs) = Success"
    using inst parse len by blast
  moreover have "fst (handleSyncContinuousChanges exampleDom
          ''\<newline><p>intro</p><hr><h2>A</h2><p>x</p> '' ?rs)
        = [exampleRow ''1700'' ''Untitled Section'' ''<p>intro</p>'',
           exampleRow ''1701'' ''A'' ''<p>x</p>'']"
    using parse [simplified] sections [simplified]
    by (simp add: handleSyncContinuousChanges_def syncContinuousChanges_def
          handleUpdateAllRows_def updateRows_def enumerate_eq_zip exampleRow_def
          createInitialRow_def orElse_def)
  ultimately have "handleSyncContinuousChanges exampleDom
          ''\<newline><p>intro</p><hr><h2>A</h2><p>x</p> '' ?rs
        = ([exampleRow ''1700'' ''Untitled Section'' ''<p>intro</p>'',
            exampleRow ''1701'' ''A'' ''<p>x</p>''], Success)"
    by (simp add: prod_eq_iff)
  with pre content segs parse len sections show ?thesis
    by (simp add: list_all_iff split_def)
qed

section \<open>Saving in local mode\<close>

lemma newestFirst_sortByUpdatedAt: "newestFirst getTime (sortByUpdatedAt getTime docs)"
proof -
  have "sorted (map (\<lambda>doc. - getTime (updatedAt doc)) (sortByUpdatedAt getTime docs))"
    unfolding sortByUpdatedAt_def by (rule sorted_sort_key)
  then show ?thesis by (simp add: newestFirst_def sorted_map)
qed

lemma first_local_save:
  assumes "operatingMode s = Local" and "savedDocuments s = []" and "currentDocumentId s = None"
    and "trim ttl \<noteq> []"
  shows "savedDocuments (handleSaveDocument env ttl s)
           = [\<lparr> doc_id = sv_ms env, doc_title = trim ttl, createdAt = sv_iso env,
                updatedAt = sv_iso env, doc_rows = rows s \<rparr>]
         \<and> newestFirst (sv_getTime env) (savedDocuments (handleSaveDocument env ttl s))
         \<and> currentDocumentId (handleSaveDocument env ttl s)
             = (if sv_updaterAtCall env then Some (sv_ms env) else None)
         \<and> rows (handleSaveDocument env ttl s) = rows s
         \<and> operatingMode (handleSaveDocument env ttl s) = Local"
proof -
  have "handleSaveDocument env ttl s
        = s\<lparr>savedDocuments := [\<lparr> doc_id = sv_ms env, doc_title = trim ttl, createdAt = sv_iso env,
                updatedAt = sv_iso env, doc_rows = rows s \<rparr>],
             currentDocumentId := (if sv_updaterAtCall env then Some (sv_ms env) else None)\<rparr>"
    using assms by (simp add: handleSaveDocument_def truthyId_def sortByUpdatedAt_def Let_def)
  then show ?thesis using assms(1) by (simp add: newestFirst_def)
qed

text \<open>
  Claim C4. The code at the first save in local mode, when React runs the updater of
  \<open>setSavedDocuments\<close> at the next render: the index holds exactly the new document, with
  the trimmed title, the current sections and the fresh identifier, but the identifier of
  the open document is still unset, because \<open>newDocId\<close> was compared before the updater
  assigned it.
\<close>

theorem first_local_save_leaves_open_id_unset:
  "savedDocuments (handleSaveDocument (exampleSaveEnv\<lparr>sv_updaterAtCall := False\<rparr>) '' My Doc ''
      ((initialState ''1700'')\<lparr>rows := handleUpdateInput ''1700'' ''draft'' (rows (initialState ''1700'')),
                                operatingMode := Local\<rparr>))
     = [\<lparr> doc_id = ''1735689600000'', doc_title = ''My Doc'',
          createdAt = ''2025-01-01T00:00:00.000Z'', updatedAt = ''2025-01-01T00:00:00.000Z'',
          doc_rows = [createInitialRow ''1700'' ''draft'' []] \<rparr>]
   \<and> currentDocumentId (handleSaveDocument (exampleSaveEnv\<lparr>sv_updaterAtCall := False\<rparr>) '' My Doc ''
      ((initialState ''1700'')\<lparr>rows := handleUpdateInput ''1700'' ''draft'' (rows (initialState ''1700'')),
                                operatingMode := Local\<rparr>))
     = None"
  by (simp add: handleSaveDocument_def initialState_def handleUpdateInput_def createInitialRow_def
        exampleSaveEnv_def truthyId_def sortByUpdatedAt_def trim_def isWhitespace_def orElse_def
        Let_def)

text \<open>
  When the updater runs at the call, the same save binds the open document to the new
  identifier.
\<close>

lemma first_local_save_updater_at_call:
  "currentDocumentId (handleSaveDocument exampleSaveEnv '' My Doc ''
      ((initialState ''1700'')\<lparr>rows := handleUpdateInput ''1700'' ''draft'' (rows (initialState ''1700'')),
                                operatingMode := Local\<rparr>))
     = Some ''1735689600000''"
  by (simp add: handleSaveDocument_def initialState_def handleUpdateInput_def createInitialRow_def
        exampleSaveEnv_def truthyId_def sortByUpdatedAt_def trim_def isWhitespace_def orElse_def
        Let_def)

section \<open>Generation with an empty response\<close>

text \<open>
  Claim C5. The code at a request that completes without content: \<open>generateText\<close>
  returns the message as if it were the generated text, so the handler stores it as the
  output of the section; the error field stays unset. Only the loading flag and the other
  section are as the claim says.
\<close>

theorem empty_response_overwrites_output:
  "handleGenerateText True True (Completed None) ''1700''
      [exampleRow ''1700'' ''A'' ''<p>old</p>'', exampleRow ''1701'' ''B'' ''<p>y</p>'']
     = [exampleRow ''1700'' ''A'' ''Error: No content received from API.'',
        exampleRow ''1701'' ''B'' ''<p>y</p>'']
   \<and> error (exampleRow ''1700'' ''A'' ''Error: No content received from API.'') = None
   \<and> isLoading (exampleRow ''1700'' ''A'' ''Error: No content received from API.'') = Some False
   \<and> row_output (exampleRow ''1700'' ''A'' ''Error: No content received from API.'')
       \<noteq> row_output (exampleRow ''1700'' ''A'' ''<p>old</p>'')"
  by (simp add: handleGenerateText_def generateText_def exampleRow_def createInitialRow_def
        orElse_def)

text \<open>For every list of rows that holds the section, that is what happens.\<close>

lemma empty_response_general:
  assumes "outcome = Completed None \<or> outcome = Completed (Some [])"
    and "find (\<lambda>r. row_id r = i) rs \<noteq> None"
  shows "handleGenerateText True True outcome i rs
         = map (\<lambda>r. if row_id r = i
                     then r\<lparr>row_output := ''Error: No content received from API.'',
                            isLoading := Some False, error := None\<rparr>
                     else r) rs"
  using assms
  by (auto simp add: handleGenerateText_def generateText_def comp_def split: option.splits)

text \<open>
  The path on which \<open>generateText\<close> throws does record the error and keeps the output.
\<close>

lemma handleGenerateText_not_initialized:
  "handleGenerateText True False outcome ''1700''
      [exampleRow ''1700'' ''A'' ''<p>old</p>'', exampleRow ''1701'' ''B'' ''<p>y</p>'']
     = [(exampleRow ''1700'' ''A'' ''<p>old</p>'')
          \<lparr>error := Some ''OpenAI client or model not initialized''\<rparr>,
        exampleRow ''1701'' ''B'' ''<p>y</p>'']"
  by (simp add: handleGenerateText_def generateText_def exampleRow_def createInitialRow_def
        orElse_def)

section \<open>The operating mode\<close>

lemma loadFromSupabase_mode:
  "operatingMode (loadFromSupabase now user selected s) = Supabase
   \<or> operatingMode (loadFromSupabase now user selected s) = Error"
  by (simp add: loadFromSupabase_def Let_def split: response.split option.split sum.split)

lemma loadFromSupabase_not_local:
  "operatingMode (loadFromSupabase now user selected s) \<noteq> Local"
  using loadFromSupabase_mode [of now user selected s] by auto

lemma loadFromSupabase_error:
  "hasError user \<or> hasError selected \<Longrightarrow>
   operatingMode (loadFromSupabase now user selected s) = Error
   \<and> appError (loadFromSupabase now user selected s) \<noteq> None"
  by (auto simp add: loadFromSupabase_def hasError_def Let_def split: response.splits option.splits)

lemma handleSaveDocument_frozen:
  "operatingMode s = Local \<or> operatingMode s = Error \<Longrightarrow>
   operatingMode (handleSaveDocument env ttl s) = operatingMode s"
  by (auto simp add: handleSaveDocument_def Let_def split_def)

lemma handleDeleteDocument_frozen:
  "operatingMode s = Local \<or> operatingMode s = Error \<Longrightarrow>
   operatingMode (handleDeleteDocument env i s) = operatingMode s"
  by (auto simp add: handleDeleteDocument_def Let_def)

lemma perform_frozen:
  "operatingMode s = Local \<or> operatingMode s = Error \<Longrightarrow>
   operatingMode (perform s op) = operatingMode s"
  by (cases op)
     (simp_all add: handleSaveDocument_frozen handleDeleteDocument_frozen handleOpenDocument_def
        handleNewDocument_def)

lemma run_frozen:
  "operatingMode s = Local \<or> operatingMode s = Error \<Longrightarrow>
   operatingMode (run s ops) = operatingMode s"
  unfolding run_def
proof (induction ops arbitrary: s)
  case Nil
  then show ?case by simp
next
  case (Cons op ops)
  have "operatingMode (perform s op) = operatingMode s" using Cons.prems by (rule perform_frozen)
  then show ?case using Cons.IH [of "perform s op"] Cons.prems by simp
qed

lemma handleSaveDocument_not_local:
  "operatingMode s \<noteq> Local \<Longrightarrow> operatingMode (handleSaveDocument env ttl s) \<noteq> Local"
  by (auto simp add: handleSaveDocument_def loadFromSupabase_not_local Let_def
        split: response.splits option.splits sum.splits)

lemma handleDeleteDocument_not_local:
  "operatingMode s \<noteq> Local \<Longrightarrow> operatingMode (handleDeleteDocument env i s) \<noteq> Local"
  by (auto simp add: handleDeleteDocument_def loadFromSupabase_not_local Let_def
        split: option.splits)

lemma perform_not_local:
  "operatingMode s \<noteq> Local \<Longrightarrow> operatingMode (perform s op) \<noteq> Local"
  by (cases op)
     (simp_all add: handleSaveDocument_not_local handleDeleteDocument_not_local
        handleOpenDocument_def handleNewDocument_def)

lemma run_not_local:
  "operatingMode s \<noteq> Local \<Longrightarrow> operatingMode (run s ops) \<noteq> Local"
  unfolding run_def
proof (induction ops arbitrary: s)
  case Nil
  then show ?case by simp
next
  case (Cons op ops)
  have "operatingMode (perform s op) \<noteq> Local" using Cons.prems by (rule perform_not_local)
  then show ?case using Cons.IH [of "perform s op"] by simp
qed

lemma handleSaveDocument_remote_failure:
  assumes "operatingMode s = Supabase" and "sv_client env" and "trim ttl \<noteq> []"
    and "hasError (sv_user env) \<or> hasError (sv_written env)
         \<or> hasError (sv_reloadUser env) \<or> hasError (sv_reloadSelected env)"
  shows "operatingMode (handleSaveDocument env ttl s) = Error
         \<and> appError (handleSaveDocument env ttl s) \<noteq> None"
proof (cases "hasError (sv_reloadUser env) \<or> hasError (sv_reloadSelected env)")
  case True
  show ?thesis
    using assms(1-3) loadFromSupabase_error [OF True]
    by (auto simp add: handleSaveDocument_def Let_def split: response.splits option.splits)
next
  case False
  with assms(4) have "hasError (sv_user env) \<or> hasError (sv_written env)" by simp
  then show ?thesis
    using assms(1-3)
    by (auto simp add: handleSaveDocument_def hasError_def Let_def
          split: response.splits option.splits)
qed

lemma handleDeleteDocument_remote_failure:
  assumes "operatingMode s = Supabase" and "del_client env"
    and "del_error env \<noteq> None \<or> hasError (del_reloadUser env) \<or> hasError (del_reloadSelected env)"
  shows "operatingMode (handleDeleteDocument env i s) = Error
         \<and> appError (handleDeleteDocument env i s) \<noteq> None"
proof (cases "hasError (del_reloadUser env) \<or> hasError (del_reloadSelected env)")
  case True
  show ?thesis
    using assms(1,2) loadFromSupabase_error [OF True]
    by (auto simp add: handleDeleteDocument_def Let_def split: option.splits)
next
  case False
  with assms(3) have "del_error env \<noteq> None" by simp
  then show ?thesis
    using assms(1,2) by (auto simp add: handleDeleteDocument_def Let_def split: option.splits)
qed

text \<open>
  Claim C9. The operations of a session after its initialisation are saving, opening and
  deleting a document, starting a new one and every change of the sections. Once the mode is
  \<open>local\<close> or \<open>error\<close>, no sequence of them changes it, so it never becomes
  \<open>supabase\<close> again; from no other mode does any sequence of them reach \<open>local\<close>;
  and a save or a delete in mode \<open>supabase\<close> in which a request returns an error ends in
  mode \<open>error\<close> with the cause recorded.
\<close>

theorem mode_never_returns_to_remote:
  "(operatingMode s = Local \<or> operatingMode s = Error \<longrightarrow>
      operatingMode (run s ops) = operatingMode s)
   \<and> (operatingMode s \<noteq> Local \<longrightarrow> operatingMode (run s ops) \<noteq> Local)
   \<and> (operatingMode s = Supabase \<and> sv_client env \<and> trim ttl \<noteq> []
        \<and> (hasError (sv_user env) \<or> hasError (sv_written env)
            \<or> hasError (sv_reloadUser env) \<or> hasError (sv_reloadSelected env)) \<longrightarrow>
      operatingMode (handleSaveDocument env ttl s) = Error
      \<and> appError (handleSaveDocument env ttl s) \<noteq> None)
   \<and> (operatingMode s = Supabase \<and> del_client denv
        \<and> (del_error denv \<noteq> None \<or> hasError (del_reloadUser denv)
            \<or> hasError (del_reloadSelected denv)) \<longrightarrow>
      operatingMode (handleDeleteDocument denv i s) = Error
      \<and> appError (handleDeleteDocument denv i s) \<noteq> None)"
  using run_frozen [of s ops] run_not_local [of s ops]
    handleSaveDocument_remote_failure [of s env ttl]
    handleDeleteDocument_remote_failure [of s denv i]
  by blast

theorem mode_never_returns_to_remote_witness:
  "(operatingMode ((initialState ''1700'')\<lparr>operatingMode := Local\<rparr>) = Local
      \<or> operatingMode ((initialState ''1700'')\<lparr>operatingMode := Local\<rparr>) = Error)
   \<and> operatingMode (run ((initialState ''1700'')\<lparr>operatingMode := Local\<rparr>)
         [SaveDocument exampleSaveEnv ''My Doc'', NewDocument ''1701'',
          DeleteDocument exampleDeleteEnv ''1735689600000'',
          MutateRows (handleAddRow ''1702'')]) = Local
   \<and> operatingMode ((initialState ''1700'')\<lparr>operatingMode := Supabase\<rparr>) \<noteq> Local
   \<and> operatingMode (run ((initialState ''1700'')\<lparr>operatingMode := Supabase\<rparr>)
         [SaveDocument exampleSaveEnv ''My Doc'', NewDocument ''1701'',
          DeleteDocument exampleDeleteEnv ''1735689600000'',
          MutateRows (handleAddRow ''1702'')]) \<noteq> Local
   \<and> (operatingMode ((initialState ''1700'')\<lparr>operatingMode := Supabase\<rparr>) = Supabase
      \<and> sv_client (exampleSaveEnv\<lparr>sv_client := True, sv_user := Response (Some ''u1'') None,
            sv_written := Response None (Some (ErrorInstance ''Failed to fetch''))\<rparr>)
      \<and> trim ''My Doc'' \<noteq> []
      \<and> hasError (sv_written (exampleSaveEnv\<lparr>sv_client := True,
            sv_user := Response (Some ''u1'') None,
            sv_written := Response None (Some (ErrorInstance ''Failed to fetch''))\<rparr>)))
   \<and> operatingMode (handleSaveDocument
         (exampleSaveEnv\<lparr>sv_client := True, sv_user := Response (Some ''u1'') None,
            sv_written := Response None (Some (ErrorInstance ''Failed to fetch''))\<rparr>)
         ''My Doc'' ((initialState ''1700'')\<lparr>operatingMode := Supabase\<rparr>)) = Error
   \<and> appError (handleSaveDocument
         (exampleSaveEnv\<lparr>sv_client := True, sv_user := Response (Some ''u1'') None,
            sv_written := Response None (Some (ErrorInstance ''Failed to fetch''))\<rparr>)
         ''My Doc'' ((initialState ''1700'')\<lparr>operatingMode := Supabase\<rparr>))
       = Some ''Failed to fetch''
   \<and> (del_client exampleDeleteEnv \<and> del_error exampleDeleteEnv \<noteq> None)
   \<and> operatingMode (handleDeleteDocument exampleDeleteEnv ''d1''
         ((initialState ''1700'')\<lparr>operatingMode := Supabase\<rparr>)) = Error
   \<and> appError (handleDeleteDocument exampleDeleteEnv ''d1''
         ((initialState ''1700'')\<lparr>operatingMode := Supabase\<rparr>)) = Some ''Failed to fetch''"
proof -
  let ?local = "(initialState ''1700'')\<lparr>operatingMode := Local\<rparr>"
  let ?remote = "(initialState ''1700'')\<lparr>operatingMode := Supabase\<rparr>"
  let ?ops = "[SaveDocument exampleSaveEnv ''My Doc'', NewDocument ''1701'',
               DeleteDocument exampleDeleteEnv ''1735689600000'',
               MutateRows (handleAddRow ''1702'')]"
  let ?env = "exampleSaveEnv\<lparr>sv_client := True, sv_user := Response (Some ''u1'') None,
                sv_written := Response None (Some (ErrorInstance ''Failed to fetch''))\<rparr>"
  have l: "operatingMode ?local = Local" and r: "operatingMode ?remote = Supabase"
    by (simp_all add: initialState_def)
  have t: "trim ''My Doc'' \<noteq> []"
    by (simp add: trim_def isWhitespace_def)
  have e: "sv_client ?env" "hasError (sv_written ?env)"
    by (simp_all add: hasError_def)
  have d: "del_client exampleDeleteEnv" "del_error exampleDeleteEnv \<noteq> None"
    by (simp_all add: exampleDeleteEnv_def)
  have 1: "operatingMode (run ?local ?ops) = Local"
    using mode_never_returns_to_remote [of ?local ?ops ?env "''My Doc''" exampleDeleteEnv "''d1''"] l
    by simp
  have 2: "operatingMode (run ?remote ?ops) \<noteq> Local"
    and 3: "operatingMode (handleSaveDocument ?env ''My Doc'' ?remote) = Error"
    and 4: "operatingMode (handleDeleteDocument exampleDeleteEnv ''d1'' ?remote) = Error"
    using mode_never_returns_to_remote [of ?remote ?ops ?env "''My Doc''" exampleDeleteEnv "''d1''"]
      r t e d
    by simp_all
  have 5: "appError (handleSaveDocument ?env ''My Doc'' ?remote) = Some ''Failed to fetch''"
    using r t e(1) by (simp add: handleSaveDocument_def exampleSaveEnv_def truthyId_def initialState_def)
  have 6: "appError (handleDeleteDocument exampleDeleteEnv ''d1'' ?remote) = Some ''Failed to fetch''"
    using r by (simp add: handleDeleteDocument_def exampleDeleteEnv_def)
  show ?thesis using l r t e d 1 2 3 4 5 6 by simp
qed

section \<open>Failures of the local storage\<close>









section \<open>At least one section\<close>

lemma handleDeleteRow_single: "length rs = 1 \<Longrightarrow> handleDeleteRow i rs = rs"
  by (simp add: handleDeleteRow_def)

lemma handleDeleteRow_distinct:
  assumes "rs \<noteq> []" and "distinct (map row_id rs)"
  shows "handleDeleteRow i rs \<noteq> []"
proof (cases rs)
  case Nil
  with assms show ?thesis by simp
next
  case (Cons a rest)
  show ?thesis
  proof (cases rest)
    case Nil
    with Cons show ?thesis by (simp add: handleDeleteRow_def)
  next
    case (Cons b rest')
    with \<open>rs = a # rest\<close> assms(2) have "row_id a \<noteq> row_id b" by auto
    then have "row_id a \<noteq> i \<or> row_id b \<noteq> i" by auto
    then show ?thesis using \<open>rs = a # rest\<close> Cons by (auto simp add: handleDeleteRow_def)
  qed
qed

lemma goodRows_handleDeleteRow: "goodRows rs \<Longrightarrow> goodRows (handleDeleteRow i rs)"
  using handleDeleteRow_distinct [of rs i]
  by (simp add: goodRows_def) (simp add: handleDeleteRow_def distinct_map_filter)

lemma goodRows_map:
  assumes "goodRows rs" and "\<And>r. row_id (g r) = row_id r"
  shows "goodRows (map g rs)"
proof -
  have "row_id \<circ> g = row_id" using assms(2) by (simp add: fun_eq_iff)
  with assms(1) show ?thesis by (simp add: goodRows_def)
qed

lemma map_row_id_enumerate:
  assumes "\<And>k r. row_id (g k r) = row_id r"
  shows "map row_id (map (\<lambda>(k, r). g k r) (enumerate n rs)) = map row_id rs"
  using assms by (induction rs arbitrary: n) simp_all

lemma goodRows_map_enumerate:
  assumes "goodRows rs" and "\<And>k r. row_id (g k r) = row_id r"
  shows "goodRows (map (\<lambda>(k, r). g k r) (enumerate 0 rs))"
proof -
  have "map row_id (map (\<lambda>(k, r). g k r) (enumerate 0 rs)) = map row_id rs"
    by (rule map_row_id_enumerate) (rule assms(2))
  moreover have "map (\<lambda>(k, r). g k r) (enumerate 0 rs) \<noteq> []"
    using assms(1) by (cases rs) (simp_all add: goodRows_def)
  ultimately show ?thesis using assms(1) unfolding goodRows_def by metis
qed

lemma goodRows_append:
  "goodRows rs \<Longrightarrow> now \<notin> set (map row_id rs) \<Longrightarrow> goodRows (rs @ [createInitialRow now a b])"
  by (simp add: goodRows_def createInitialRow_def)

lemma goodRows_createInitialRow: "goodRows [createInitialRow now a b]"
  by (simp add: goodRows_def)

lemma goodRows_handleGenerateText:
  "goodRows rs \<Longrightarrow> goodRows (handleGenerateText isAi ready outcome i rs)"
  by (simp add: handleGenerateText_def goodRows_map Let_def split: option.split sum.split)

lemma goodRows_updateRows: "goodRows rs \<Longrightarrow> goodRows (updateRows secs rs)"
  unfolding updateRows_def
  by (rule goodRows_map_enumerate) (simp_all add: Let_def)

lemma goodRows_sync:
  "goodRows rs \<Longrightarrow> goodRows (fst (handleSyncContinuousChanges parseFromString content rs))"
  by (simp add: handleSyncContinuousChanges_def syncContinuousChanges_def handleUpdateAllRows_def
        goodRows_updateRows Let_def split: option.split)

lemma goodRows_handleImportDocument:
  assumes "goodRows rs"
    and "(rs \<noteq> [] \<and> trim (input (last rs)) = []) \<or> now \<notin> set (map row_id rs)"
  shows "goodRows (handleImportDocument now text rs)"
proof -
  from assms(1) have ne: "rs \<noteq> []" by (simp add: goodRows_def)
  then have l: "rs ! (length rs - 1) = last rs" by (simp add: last_conv_nth)
  show ?thesis
  proof (cases "trim (input (last rs)) = []")
    case True
    have "goodRows (map (\<lambda>(index, row). if index = length rs - 1 then row\<lparr>input := text\<rparr> else row)
                      (enumerate 0 rs))"
      by (rule goodRows_map_enumerate [OF assms(1)]) simp
    with True ne l show ?thesis by (simp add: handleImportDocument_def)
  next
    case False
    with assms(2) have "now \<notin> set (map row_id rs)" by blast
    with assms(1) have "goodRows (rs @ [createInitialRow now text []])" by (rule goodRows_append)
    with False ne l show ?thesis by (simp add: handleImportDocument_def)
  qed
qed

lemma goodRows_rowsAfter:
  "goodRows (rows s) \<Longrightarrow> admissible s a \<Longrightarrow> goodRows (rowsAfter a (rows s))"
proof (cases a)
  case (AddRow now)
  assume "goodRows (rows s)" "admissible s a"
  with AddRow show ?thesis by (simp add: handleAddRow_def goodRows_append)
next
  case (ImportDocument now imported)
  assume "goodRows (rows s)" "admissible s a"
  with ImportDocument show ?thesis by (simp add: goodRows_handleImportDocument)
qed (simp_all add: goodRows_handleDeleteRow goodRows_handleGenerateText goodRows_sync goodRows_map
       handleUpdateTitle_def handleUpdateInput_def handleUpdatePrompt_def handleUpdateOutput_def
       handleToggleExpand_def handleToggleInputExpand_def handleUpdateSectionInput_def
       handleAddSectionInput_def handleRemoveSectionInput_def)

lemma wellFormed_loadFromSupabase:
  "wellFormed s \<Longrightarrow> remoteDocsOk selected \<Longrightarrow> wellFormed (loadFromSupabase now user selected s)"
  by (auto simp add: wellFormed_def remoteDocsOk_def loadFromSupabase_def Let_def
        goodRows_createInitialRow list_all_iff mapSupabaseToSavedDocument_def
        split: response.splits option.splits sum.splits)

lemma docs_list_update:
  "list_all P docs \<Longrightarrow> P d \<Longrightarrow> list_all P (docs[k := d])"
  by (auto simp add: list_all_iff dest: set_update_subset_insert [THEN subsetD])

lemma list_all_sortByUpdatedAt: "list_all P (sortByUpdatedAt getTime docs) = list_all P docs"
  by (simp add: sortByUpdatedAt_def list_all_iff)

lemma wellFormed_mode: "wellFormed (s\<lparr>operatingMode := m\<rparr>) = wellFormed s"
  by (simp add: wellFormed_def)

lemma wellFormed_currentDocumentId: "wellFormed (s\<lparr>currentDocumentId := c\<rparr>) = wellFormed s"
  by (simp add: wellFormed_def)

lemma wellFormed_appError: "wellFormed (s\<lparr>appError := e\<rparr>) = wellFormed s"
  by (simp add: wellFormed_def)

lemma wellFormed_handleSaveDocument:
  assumes wf: "wellFormed s" and ok: "remoteDocsOk (sv_reloadSelected env)"
  shows "wellFormed (handleSaveDocument env ttl s)"
proof -
  note load = wellFormed_loadFromSupabase [OF _ ok]
  have docs: "list_all (\<lambda>doc. goodRows (doc_rows doc)) (savedDocuments s)"
    and rs: "goodRows (rows s)"
    using wf by (simp_all add: wellFormed_def)
  have upd: "list_all (\<lambda>doc. goodRows (doc_rows doc))
               ((savedDocuments s)[k := d\<lparr>doc_title := t, doc_rows := rows s, updatedAt := u\<rparr>])"
    for k d t u
    using docs rs by (simp add: docs_list_update)
  have app: "list_all (\<lambda>doc. goodRows (doc_rows doc))
               (savedDocuments s @ [\<lparr> doc_id = i, doc_title = t, createdAt = c, updatedAt = u,
                                      doc_rows = rows s \<rparr>])"
    for i t c u
    using docs rs by simp
  show ?thesis
    using wf rs upd app
    by (auto simp add: handleSaveDocument_def Let_def split_def load wellFormed_mode
          wellFormed_currentDocumentId wellFormed_appError list_all_sortByUpdatedAt
          wellFormed_def [of "s\<lparr>savedDocuments := x\<rparr>" for x]
          wellFormed_def [of "s\<lparr>savedDocuments := x, currentDocumentId := y\<rparr>" for x y]
          split: response.splits option.splits)
qed

lemma wellFormed_handleOpenDocument:
  "wellFormed s \<Longrightarrow> document \<in> set (savedDocuments s) \<Longrightarrow> wellFormed (handleOpenDocument document s)"
  by (simp add: wellFormed_def handleOpenDocument_def list_all_iff)

lemma wellFormed_handleDeleteDocument:
  assumes wf: "wellFormed s" and ok: "remoteDocsOk (del_reloadSelected env)"
  shows "wellFormed (handleDeleteDocument env i s)"
proof -
  note load = wellFormed_loadFromSupabase [OF _ ok]
  have reset: "wellFormed (s\<lparr>operatingMode := Loading, currentDocumentId := None,
                             rows := [createInitialRow (del_now env) [] []]\<rparr>)"
    using wf by (simp add: wellFormed_def goodRows_createInitialRow)
  have local: "wellFormed (s\<lparr>savedDocuments := filter (\<lambda>doc. doc_id doc \<noteq> i) (savedDocuments s)\<rparr>)"
    using wf by (simp add: wellFormed_def list_all_iff)
  have local_reset:
    "wellFormed (s\<lparr>savedDocuments := filter (\<lambda>doc. doc_id doc \<noteq> i) (savedDocuments s),
                    currentDocumentId := None, rows := [createInitialRow (del_now env) [] []]\<rparr>)"
    using wf by (simp add: wellFormed_def list_all_iff goodRows_createInitialRow)
  show ?thesis
    using wf reset local local_reset
    by (simp add: handleDeleteDocument_def Let_def load wellFormed_mode wellFormed_appError
          split: option.split)
qed

lemma wellFormed_handleNewDocument: "wellFormed s \<Longrightarrow> wellFormed (handleNewDocument now s)"
  by (simp add: wellFormed_def handleNewDocument_def goodRows_createInitialRow)

lemma wellFormed_rows:
  "wellFormed s \<Longrightarrow> goodRows rs \<Longrightarrow> wellFormed (s\<lparr>rows := rs\<rparr>)"
  by (simp add: wellFormed_def)

lemma wellFormed_act:
  assumes "wellFormed s" and "admissible s a"
  shows "wellFormed (act s a)"
proof -
  have rs: "goodRows (rowsAfter a (rows s))"
    using assms by (simp add: goodRows_rowsAfter wellFormed_def)
  have r: "wellFormed (s\<lparr>rows := rowsAfter a (rows s)\<rparr>)"
    using assms(1) rs by (rule wellFormed_rows)
  show ?thesis
    using assms r
    by (cases a)
       (simp_all add: wellFormed_handleSaveDocument wellFormed_handleOpenDocument
          wellFormed_handleDeleteDocument wellFormed_handleNewDocument)
qed

lemma wellFormed_session:
  "wellFormed s \<Longrightarrow> admissibleSession s as \<Longrightarrow> wellFormed (session s as)"
  unfolding session_def
proof (induction as arbitrary: s)
  case Nil
  then show ?case by simp
next
  case (Cons a as)
  then show ?case by (simp add: wellFormed_act)
qed

lemma appStateOf_loadedOf: "appStateOf (loadedOf s) = Some s"
  by (simp add: appStateOf_def loadedOf_def)

lemma find_in_set: "find P xs = Some x \<Longrightarrow> x \<in> set xs"
  by (induction xs) (auto split: if_splits)

lemma wellFormed_loadFromLocalStorage:
  assumes "storageOk now0 store"
  shows "\<exists>s'. appStateOf (fst (loadFromLocalStorage now0 now1 typeError store)) = Some s'
              \<and> wellFormed s'"
proof -
  let ?rows = "getItem store document_rows (Some [createInitialRow now0 [] []])"
  let ?docs = "getItem store saved_documents (Some [])"
  let ?cur = "getItem store current_document_id None"
  from assms obtain rs docs where rs: "?rows = Some rs" "distinct (map row_id rs)"
    and docs: "?docs = Some docs" "list_all (\<lambda>doc. goodRows (doc_rows doc)) docs"
    by (auto simp add: storageOk_def split: option.splits)
  show ?thesis
  proof (cases "truthyId ?cur")
    case True
    show ?thesis
    proof (cases "find (\<lambda>doc. Some (doc_id doc) = ?cur) docs")
      case None
      with True rs docs show ?thesis
        by (simp add: loadFromLocalStorage_def Let_def appStateOf_def wellFormed_def
              goodRows_createInitialRow)
    next
      case (Some currentDoc)
      then have "currentDoc \<in> set docs" by (rule find_in_set)
      with docs(2) have "goodRows (doc_rows currentDoc)" by (simp add: list_all_iff)
      with True Some rs docs show ?thesis
        by (simp add: loadFromLocalStorage_def Let_def appStateOf_def wellFormed_def)
    qed
  next
    case False
    with rs docs show ?thesis
      by (auto simp add: loadFromLocalStorage_def Let_def appStateOf_def wellFormed_def
            goodRows_createInitialRow goodRows_def)
  qed
qed

lemma wellFormed_initialize:
  assumes "wellFormed s" and "remoteDocsOk selected" and "storageOk now0 store"
  shows "\<exists>s'. appStateOf (fst (initialize hook now0 now1 typeError user selected store s)) = Some s'
              \<and> wellFormed s'"
  using assms(1) wellFormed_loadFromSupabase [OF assms(1,2)]
    wellFormed_loadFromLocalStorage [OF assms(3)]
  by (simp add: initialize_def appStateOf_loadedOf wellFormed_mode)

lemma wellFormed_initialState: "wellFormed (initialState now)"
  by (simp add: wellFormed_def initialState_def goodRows_createInitialRow)

lemma handleDeleteDocument_open_local:
  "operatingMode s = Local \<Longrightarrow> currentDocumentId s = Some i \<Longrightarrow>
   rows (handleDeleteDocument env i s) = [createInitialRow (del_now env) [] []]"
  by (simp add: handleDeleteDocument_def Let_def)

text \<open>
  Distinct identifiers matter: the filter of \<open>handleDeleteRow\<close> removes every section
  that has the identifier. A section added at the clock reading of the only other one
  shares its identifier, and deleting either leaves no section.
\<close>

lemma handleDeleteRow_shared_id:
  "\<not> admissible localState (AddRow ''1700'')
   \<and> rows (session localState [AddRow ''1700'', DeleteRow ''1700'']) = []"
  by (simp add: session_def localState_def initialState_def handleAddRow_def handleDeleteRow_def
        createInitialRow_def)

text \<open>
  Claim C3, as the code has it. Deleting a section from a list of exactly one is a no-op.
  Call a state well formed when its list of sections is non-empty with pairwise distinct
  identifiers and so is the list of every document of its index. The state that \<open>App\<close>
  starts with is well formed. Every handler keeps a well formed state well formed, so the
  list of sections is non-empty after every session, provided that: where a handler makes
  the clock reading the identifier of a section that it appends (adding a section,
  importing into a list whose last section has input), no section has that identifier;
  documents are opened from the index; and the documents that the remote store delivers on
  a reload each have a non-empty list of sections with distinct identifiers. Under the same
  condition on what the remote store delivers and on what the local storage holds,
  initialisation yields a well formed state. A new document and the deletion of the open
  document in local mode set the list to one default section; opening a document installs
  the sections of that document.
\<close>

theorem sections_stay_nonempty:
  "(length rs = 1 \<longrightarrow> handleDeleteRow i rs = rs)
   \<and> (wellFormed s \<and> admissibleSession s as \<longrightarrow>
        wellFormed (session s as) \<and> rows (session s as) \<noteq> [])
   \<and> wellFormed (initialState now)
   \<and> (wellFormed s \<and> remoteDocsOk selected \<and> storageOk now0 store \<longrightarrow>
        (\<exists>s'. appStateOf (fst (initialize hook now0 now1 typeError user selected store s)) = Some s'
              \<and> wellFormed s'))
   \<and> rows (handleNewDocument now s) = [createInitialRow now [] []]
   \<and> (operatingMode s = Local \<and> currentDocumentId s = Some i \<longrightarrow>
        rows (handleDeleteDocument denv i s) = [createInitialRow (del_now denv) [] []])
   \<and> rows (handleOpenDocument document s) = doc_rows document"
proof -
  have "wellFormed s \<and> admissibleSession s as \<longrightarrow>
        wellFormed (session s as) \<and> rows (session s as) \<noteq> []"
    using wellFormed_session [of s as] by (simp add: wellFormed_def goodRows_def)
  then show ?thesis
    using handleDeleteRow_single [of rs i] wellFormed_initialState [of now]
      wellFormed_initialize [of s selected now0 store hook now1 typeError user]
      handleDeleteDocument_open_local [of s i denv]
    by (simp add: handleNewDocument_def handleOpenDocument_def)
qed

theorem sections_stay_nonempty_witness:
  "length [createInitialRow ''1700'' [] []] = 1
   \<and> handleDeleteRow ''1700'' [createInitialRow ''1700'' [] []] = [createInitialRow ''1700'' [] []]
   \<and> wellFormed localState
   \<and> admissibleSession localState exampleSession
   \<and> wellFormed (session localState exampleSession)
   \<and> rows (session localState exampleSession) \<noteq> []
   \<and> remoteDocsOk (Response (None :: SupabaseDocument list option) None)
   \<and> storageOk ''1700'' emptyStore
   \<and> (\<exists>s'. appStateOf (fst (initialize \<lparr> supabaseLoading = False, supabaseClient = False,
                         supabaseInitialized = False, supabaseError = None \<rparr>
                       ''1700'' ''1701'' v8TypeError (Response None None) (Response None None)
                       emptyStore localState)) = Some s'
            \<and> wellFormed s')
   \<and> operatingMode (localState\<lparr>currentDocumentId := Some ''d1''\<rparr>) = Local
   \<and> currentDocumentId (localState\<lparr>currentDocumentId := Some ''d1''\<rparr>) = Some ''d1''
   \<and> rows (handleDeleteDocument exampleDeleteEnv ''d1'' (localState\<lparr>currentDocumentId := Some ''d1''\<rparr>))
       = [createInitialRow ''1703'' [] []]"
proof -
  let ?one = "[createInitialRow ''1700'' [] []]"
  let ?hook = "\<lparr> supabaseLoading = False, supabaseClient = False,
                 supabaseInitialized = False, supabaseError = None \<rparr>"
  let ?none = "Response (None :: SupabaseDocument list option) None"
  let ?open = "localState\<lparr>currentDocumentId := Some ''d1''\<rparr>"
  have one: "length ?one = 1" by simp
  have wf: "wellFormed localState"
    by (simp add: localState_def wellFormed_def initialState_def goodRows_def)
  have adm: "admissibleSession localState exampleSession"
    by (simp add: exampleSession_def localState_def initialState_def createInitialRow_def
          handleAddRow_def handleDeleteRow_def handleUpdateTitle_def handleImportDocument_def
          handleSaveDocument_def handleNewDocument_def handleOpenDocument_def
          exampleSaveEnv_def exampleDeleteEnv_def remoteDocsOk_def trim_def isWhitespace_def
          truthyId_def sortByUpdatedAt_def Let_def)
  have remote: "remoteDocsOk ?none" by (simp add: remoteDocsOk_def)
  have store: "storageOk ''1700'' emptyStore"
    by (simp add: storageOk_def getItem_def emptyStore_def createInitialRow_def)
  have op: "operatingMode ?open = Local \<and> currentDocumentId ?open = Some ''d1''"
    by (simp add: localState_def)
  have 1: "handleDeleteRow ''1700'' ?one = ?one"
    using sections_stay_nonempty [of ?one "''1700''"] one by blast
  have 2: "wellFormed (session localState exampleSession)
           \<and> rows (session localState exampleSession) \<noteq> []"
    using sections_stay_nonempty [of ?one "''1700''" localState exampleSession] wf adm by blast
  have 3: "\<exists>s'. appStateOf (fst (initialize ?hook ''1700'' ''1701'' v8TypeError (Response None None)
                         ?none emptyStore localState)) = Some s' \<and> wellFormed s'"
    using sections_stay_nonempty
      [of ?one "''1700''" localState exampleSession _ ?none "''1700''" emptyStore ?hook "''1701''"
          v8TypeError "Response None None"]
      wf remote store
    by blast
  have 4: "rows (handleDeleteDocument exampleDeleteEnv ''d1'' ?open)
           = [createInitialRow (del_now exampleDeleteEnv) [] []]"
    using sections_stay_nonempty [of ?one "''d1''" ?open _ _ _ _ _ _ _ _ _ exampleDeleteEnv] op
    by blast
  show ?thesis using one wf adm remote store op 1 2 3 4 by (simp add: exampleDeleteEnv_def)
qed

text \<open>
  The claim as stated fails for opening a saved document that has no sections. The remote
  store delivers such a document; the load succeeds, the mode is \<open>supabase\<close> and the
  document is in the index; opening it there leaves the list of sections empty.
\<close>

theorem open_empty_document_counterexample:
  "operatingMode (loadFromSupabase ''1700'' (Response (Some ''u1'') None)
       (Response (Some [emptyRemoteDocument]) None) (initialState ''1699'')) = Supabase
   \<and> mapSupabaseToSavedDocument emptyRemoteDocument
       \<in> set (savedDocuments (loadFromSupabase ''1700'' (Response (Some ''u1'') None)
                 (Response (Some [emptyRemoteDocument]) None) (initialState ''1699'')))
   \<and> rows (loadFromSupabase ''1700'' (Response (Some ''u1'') None)
       (Response (Some [emptyRemoteDocument]) None) (initialState ''1699''))
       = [createInitialRow ''1700'' [] []]
   \<and> rows (session (loadFromSupabase ''1700'' (Response (Some ''u1'') None)
                (Response (Some [emptyRemoteDocument]) None) (initialState ''1699''))
         [Open (mapSupabaseToSavedDocument emptyRemoteDocument)]) = []"
  by (simp add: loadFromSupabase_def Let_def session_def handleOpenDocument_def
        mapSupabaseToSavedDocument_def emptyRemoteDocument_def initialState_def)

section \<open>Merging and splitting\<close>


































text \<open>The fragment gives the node lists that the examples take from the browser.\<close>

lemma exampleDom_agrees:
  "exampleDom markup = Some ns \<Longrightarrow> domParser elsewhere markup = Some ns"
  by (auto simp add: exampleDom_def split: if_splits)
     (simp_all add: domParser_def unwrap_def fragmentNodes_def step_def flush_def textChar_def
        ruleTags_def containers_def elementNode_def textNode_def escapeText_def)



end
